theory Spec2Isabelle
  imports Complex_Main "HOL-Library.Sublist" "HOL-Library.Log_Nat"
begin

section \<open>Requests, replies and the server state\<close>

text \<open>
  The embedding follows \<^verbatim>\<open>src/routes/evidenceRoutes.js\<close>, its sibling copy
  \<^verbatim>\<open>src/unnamed/part_004\<close>, the schema \<^verbatim>\<open>src/models/SOSEvidence.js\<close>,
  \<^verbatim>\<open>src/routes/advancedSOSRoutes.js\<close> and the volunteer router
  \<^verbatim>\<open>src/unnamed/part_005\<close>.

  Conventions of the model:
  \<^item> a buffer is a \<open>string\<close> (a list of bytes);
  \<^item> a request field that JavaScript tests with \<open>!x\<close> is a string, the empty
    string standing for an absent field; \<open>chunkIndex\<close> and \<open>totalChunks\<close> are
    canonical non-negative decimals, given as the natural number they denote,
    \<open>None\<close> standing for an absent field; \<open>parseInt\<close> turns them into
    JavaScript numbers (see \<open>js_number\<close>);
  \<^item> the upload directory of a session is a pair of maps (chunk files, assembled
    files) together with the content of \<open>progress.json\<close>, an object whose keys
    are kept in insertion order; \<open>uploadId\<close> is a single path segment;
  \<^item> the Mongoose collections are lists of documents in insertion order. A
    document holds the fields of its schema only (a strict schema drops every
    other field given to the constructor); \<open>save\<close> runs the validators of the
    schema (required fields, enumerations) and throws when one fails; \<open>find\<close>
    filters on the fields given. Ids are well-formed, so casting never fails;
  \<^item> \<open>req.user.id\<close> of a verified token is the requester's identity.
\<close>

type_synonym buffer = string

datatype caller = NoToken | InvalidToken | Authenticated string

subsection \<open>JavaScript numbers\<close>

text \<open>
  A JavaScript number is a double. Every natural number below \<open>2^53\<close> is one;
  a larger one is rounded to the nearest double, ties to the even mantissa, and
  from \<open>2^1024\<close> on the result is \<open>Infinity\<close>, which \<^verbatim>\<open>JSON.stringify\<close> writes
  as \<open>null\<close>, like \<open>NaN\<close>. A number read back from \<open>progress.json\<close> is
  therefore \<open>Some\<close> double or \<open>None\<close> (null).
\<close>

definition to_double :: "nat \<Rightarrow> nat" where
  "to_double n =
     (if n < 2 ^ 53 then n
      else let e = floorlog 2 n - 53; q = n div 2 ^ e; r = n mod 2 ^ e; h = 2 ^ (e - 1)
           in if h < r \<or> (r = h \<and> odd q) then (q + 1) * 2 ^ e else q * 2 ^ e)"

definition js_number :: "nat \<Rightarrow> nat option" where
  "js_number n = (let d = to_double n in if d < 2 ^ 1024 then Some d else None)"

text \<open>\<^verbatim>\<open>parseInt(x)\<close> of an optional canonical decimal; an absent field gives \<open>NaN\<close>.\<close>

definition parseInt :: "nat option \<Rightarrow> nat option" where
  "parseInt x = (case x of None \<Rightarrow> None | Some n \<Rightarrow> js_number n)"

text \<open>\<^verbatim>\<open>x + 1\<close> on a number; \<open>NaN + 1\<close> and \<open>Infinity + 1\<close> stay what they are.\<close>

definition js_plus_one :: "nat option \<Rightarrow> nat option" where
  "js_plus_one x = (case x of None \<Rightarrow> None | Some d \<Rightarrow> js_number (d + 1))"

subsection \<open>Documents and state\<close>

record file_progress =
  uploadedChunks :: "nat option"
  totalChunks :: "nat option"

type_synonym progress_json = "(string \<times> file_progress) list"

type_synonym chunk_files = "string \<times> nat \<Rightarrow> buffer option"

record upload_dir =
  chunks :: chunk_files
  finals :: "string \<Rightarrow> buffer option"
  progress :: progress_json

record evidence_file =
  ef_type :: string
  ef_filename :: string
  ef_data :: buffer
  ef_secureUrl :: string
  ef_size :: nat
  ef_mimeType :: string

record share_record =
  sr_type :: string
  sr_sharedAt :: int

text \<open>A document of the schema of \<^verbatim>\<open>src/models/SOSEvidence.js\<close>. The fields
  \<open>sosId\<close> and \<open>type\<close> are optional in a document under construction and
  required by the validators.\<close>

record evidence_doc =
  ev_id :: nat
  ev_userId :: string
  ev_sosId :: "string option"
  ev_type :: "string option"
  ev_timestamp :: int
  ev_evidenceFiles :: "evidence_file list"
  ev_sharedWith :: "share_record list"
  ev_hash :: "string option"

record guardian_response =
  gr_guardianId :: string
  gr_sosEventId :: nat
  gr_action :: string
  gr_reason :: string
  gr_respondedAt :: int

record sos_event =
  se_id :: nat
  se_recordingId :: string
  se_userId :: string
  se_timestamp :: int
  se_status :: string
  se_evidence :: "nat option"
  se_guardianResponses :: "guardian_response list"

record volunteer_view =
  vv_id :: nat
  vv_name :: string
  vv_mobile :: string
  vv_location :: "real \<times> real"
  vv_lastActive :: int
  vv_distance :: real

record server_state =
  uploads :: "string \<Rightarrow> upload_dir option"
  evidence :: "evidence_doc list"
  sos_events :: "sos_event list"
  sos_history :: "(string \<times> nat) list"
  cleanup_timers :: "string list"
  next_id :: nat

datatype body =
    Error string
  | IncompleteUpload string "nat option" "nat option"
  | ChunkAck string string string "nat option" "nat option" progress_json
  | Finalized nat string "(string \<times> string) list" string
  | EvidenceMeta int
  | EventList "sos_event list"
  | EventDetail sos_event
  | UploadAck nat "evidence_file list" string
  | EvidenceList "evidence_doc list"
  | ShareAck "share_record list"
  | FileBody string string buffer
  | RespondAck guardian_response
  | Volunteers nat "volunteer_view list"

type_synonym reply = "nat \<times> body"

definition init_state :: server_state where
  "init_state = \<lparr>uploads = (\<lambda>_. None), evidence = [], sos_events = [],
     sos_history = [], cleanup_timers = [], next_id = 0\<rparr>"

subsection \<open>The validators of the evidence schema\<close>

text \<open>The enumerations of \<^verbatim>\<open>src/models/SOSEvidence.js\<close>.\<close>

definition sos_types :: "string list" where
  "sos_types = [''panic'', ''accident'', ''medical'', ''disaster'', ''manual'']"

definition file_types :: "string list" where
  "file_types = [''video_front'', ''video_back'', ''audio'', ''photo'']"

definition share_types :: "string list" where
  "share_types = [''family'', ''police'', ''emergency_services'', ''sos_logs'']"

text \<open>An entry of \<open>evidenceFiles\<close>: type, filename, data, secure URL and MIME type
  are required strings (an empty string fails \<open>required\<close>), the type is of the
  enumeration; the size is always present.\<close>

definition valid_file :: "evidence_file \<Rightarrow> bool" where
  "valid_file f =
     (ef_type f \<in> set file_types \<and> ef_filename f \<noteq> [] \<and> ef_data f \<noteq> []
      \<and> ef_secureUrl f \<noteq> [] \<and> ef_mimeType f \<noteq> [])"

text \<open>What \<open>save\<close> checks: \<open>userId\<close>, \<open>sosId\<close> and \<open>type\<close> are required,
  \<open>type\<close> and the type of every \<open>sharedWith\<close> entry are of their
  enumerations, every file entry is valid.\<close>

definition schema_valid :: "evidence_doc \<Rightarrow> bool" where
  "schema_valid e =
     (ev_userId e \<noteq> []
      \<and> (case ev_sosId e of None \<Rightarrow> False | Some i \<Rightarrow> i \<noteq> [])
      \<and> (case ev_type e of None \<Rightarrow> False | Some t \<Rightarrow> t \<in> set sos_types)
      \<and> list_all valid_file (ev_evidenceFiles e)
      \<and> list_all (\<lambda>r. sr_type r \<in> set share_types) (ev_sharedWith e))"

subsection \<open>The authentication middleware\<close>

text \<open>\<^verbatim>\<open>authenticateToken\<close>: 401 without a token, 403 for a token that does not
  verify, otherwise the handler runs with the token's user.\<close>

definition authenticateToken :: "caller \<Rightarrow> reply + string" where
  "authenticateToken c =
     (case c of
        NoToken \<Rightarrow> Inl (401, Error ''Access token required'')
      | InvalidToken \<Rightarrow> Inl (403, Error ''Invalid or expired token'')
      | Authenticated u \<Rightarrow> Inr u)"

section \<open>Chunked upload\<close>

record chunk_req =
  cr_uploadId :: string
  cr_recordingId :: string
  cr_fileType :: string
  cr_chunkIndex :: "nat option"
  cr_totalChunks :: "nat option"
  cr_file :: "buffer option"
  cr_fieldname :: string

definition empty_dir :: upload_dir where
  "empty_dir = \<lparr>chunks = (\<lambda>_. None), finals = (\<lambda>_. None), progress = []\<rparr>"

text \<open>\<^verbatim>\<open>multer({limits: {fileSize: 100 * 1024 * 1024}})\<close> with \<^verbatim>\<open>upload.single('chunk')\<close>:
  a file sent under another field name and a file above the limit are refused
  before the handler runs; Express answers such an error with status 500. A
  request without a file passes.\<close>

definition chunk_size_limit :: nat where
  "chunk_size_limit = 100 * 1024 * 1024"

definition multer_single :: "string \<Rightarrow> buffer option \<Rightarrow> reply option" where
  "multer_single fieldname file =
     (case file of
        None \<Rightarrow> None
      | Some data \<Rightarrow>
          if fieldname \<noteq> ''chunk'' then Some (500, Error ''Unexpected field'')
          else if chunk_size_limit < length data then Some (500, Error ''File too large'')
          else None)"

text \<open>The names every object inherits from \<open>Object.prototype\<close>. For such a name
  \<^verbatim>\<open>progress[fileType]\<close> is truthy without being an entry of the object.\<close>

definition inherited_names :: "string list" where
  "inherited_names =
     [''__proto__'', ''constructor'', ''hasOwnProperty'', ''isPrototypeOf'',
      ''propertyIsEnumerable'', ''toLocaleString'', ''toString'', ''valueOf'',
      ''__defineGetter__'', ''__defineSetter__'', ''__lookupGetter__'', ''__lookupSetter__'']"

text \<open>\<^verbatim>\<open>if (!progress[fileType]) progress[fileType] = {uploadedChunks: 0, totalChunks}\<close>
  followed by \<^verbatim>\<open>progress[fileType].uploadedChunks = parseInt(chunkIndex) + 1\<close>. For
  an inherited name no entry is created and the assignment lands on the
  inherited object, which \<^verbatim>\<open>JSON.stringify\<close> does not write.\<close>

fun set_uploaded :: "string \<Rightarrow> nat option \<Rightarrow> progress_json \<Rightarrow> progress_json" where
  "set_uploaded ft n [] = []"
| "set_uploaded ft n ((k, p) # ps) =
     (if k = ft then (k, p\<lparr>uploadedChunks := n\<rparr>) # ps else (k, p) # set_uploaded ft n ps)"

definition track_progress ::
  "string \<Rightarrow> nat option \<Rightarrow> nat option \<Rightarrow> progress_json \<Rightarrow> progress_json" where
  "track_progress ft idx tot pj =
     (if ft \<in> set inherited_names then pj
      else
        let pj' = (if map_of pj ft = None
                   then pj @ [(ft, \<lparr>uploadedChunks = Some 0, totalChunks = tot\<rparr>)]
                   else pj)
        in set_uploaded ft (js_plus_one idx) pj')"

text \<open>The name of a chunk file is \<^verbatim>\<open>${fileType}_chunk_${chunkIndex}\<close>, with the index
  as the request wrote it. \<^verbatim>\<open>fs.renameSync\<close> throws when the name holds a path
  separator (it then names a directory that does not exist; dot segments are
  outside the model), a NUL byte, or more than the 255 bytes a file name may
  have.\<close>

fun decimal_digits :: "nat \<Rightarrow> nat" where
  "decimal_digits n = (if n < 10 then 1 else Suc (decimal_digits (n div 10)))"

definition rename_throws :: "string \<Rightarrow> nat \<Rightarrow> bool" where
  "rename_throws ft idx =
     (CHR ''/'' \<in> set ft \<or> CHR 0x00 \<in> set ft \<or> 255 < length ft + 7 + decimal_digits idx)"

text \<open>The handler of \<^verbatim>\<open>POST /upload-chunk\<close>. The directory of the session is made
  before the chunk is moved, so it exists also when the move throws and the
  \<^verbatim>\<open>catch\<close> answers 500.\<close>

definition upload_chunk :: "server_state \<Rightarrow> caller \<Rightarrow> chunk_req \<Rightarrow> server_state \<times> reply" where
  "upload_chunk s c r =
     (case authenticateToken c of
        Inl rep \<Rightarrow> (s, rep)
      | Inr userId \<Rightarrow>
         (case multer_single (cr_fieldname r) (cr_file r) of
            Some rep \<Rightarrow> (s, rep)
          | None \<Rightarrow>
             (case cr_chunkIndex r of
                None \<Rightarrow>
                  (s, (400, Error ''Missing required fields: uploadId, recordingId, fileType, chunkIndex''))
              | Some idx \<Rightarrow>
                 if cr_uploadId r = [] \<or> cr_recordingId r = [] \<or> cr_fileType r = []
                 then (s, (400, Error ''Missing required fields: uploadId, recordingId, fileType, chunkIndex''))
                 else
                   (case cr_file r of
                      None \<Rightarrow> (s, (400, Error ''No chunk file provided''))
                    | Some data \<Rightarrow>
                       let d = (case uploads s (cr_uploadId r) of None \<Rightarrow> empty_dir | Some d \<Rightarrow> d)
                       in if rename_throws (cr_fileType r) idx
                          then (s\<lparr>uploads := (uploads s)(cr_uploadId r \<mapsto> d)\<rparr>,
                                (500, Error ''Chunk upload failed''))
                          else
                            let pj = track_progress (cr_fileType r) (parseInt (Some idx))
                                       (parseInt (cr_totalChunks r)) (progress d);
                                d' = d\<lparr>chunks := (chunks d)((cr_fileType r, idx) \<mapsto> data),
                                       progress := pj\<rparr>
                            in (s\<lparr>uploads := (uploads s)(cr_uploadId r \<mapsto> d')\<rparr>,
                                (200, ChunkAck (cr_uploadId r) (cr_recordingId r) (cr_fileType r)
                                        (parseInt (Some idx)) (parseInt (cr_totalChunks r)) pj))))))"

subsection \<open>Finalising an upload\<close>

record metadata =
  md_timestamp :: int
  md_status :: string

record finalize_req =
  fr_uploadId :: string
  fr_recordingId :: string
  fr_metadata :: "metadata option"

text \<open>The inner loop \<^verbatim>\<open>for (let i = 0; i < totalChunks; i++)\<close>: each chunk is read,
  written to the stream and unlinked. \<^verbatim>\<open>readFileSync\<close> throws on an absent chunk;
  the \<^verbatim>\<open>try\<close> around the loop catches it and the stream type gets no URL. The
  result is the remaining chunk files, the bytes written and whether the loop
  ran to its end.\<close>

fun assemble :: "string \<Rightarrow> nat list \<Rightarrow> chunk_files \<Rightarrow> buffer \<Rightarrow> chunk_files \<times> buffer \<times> bool" where
  "assemble ft [] cs acc = (cs, acc, True)"
| "assemble ft (i # is) cs acc =
     (case cs (ft, i) of
        None \<Rightarrow> (cs, acc, False)
      | Some chunkData \<Rightarrow> assemble ft is (cs((ft, i) := None)) (acc @ chunkData))"

text \<open>The indexes the loop visits. A \<open>null\<close> bound compares as zero. Above
  \<open>2^53\<close> the increment \<open>i++\<close> no longer changes \<open>i\<close>: the loop comes back to
  index \<open>2^53\<close>, whose file it has unlinked.\<close>

definition loop_indexes :: "file_progress \<Rightarrow> nat list" where
  "loop_indexes p =
     (case totalChunks p of
        None \<Rightarrow> []
      | Some n \<Rightarrow> if n \<le> 2 ^ 53 then [0..<n] else [0..<2 ^ 53 + 1] @ [2 ^ 53])"

definition cloud_url :: "string \<Rightarrow> string \<Rightarrow> string" where
  "cloud_url recordingId ft =
     ''https://smartsensry-backend.herokuapp.com/api/sos-evidence/'' @ recordingId @ ''/'' @ ft"

text \<open>The outer loop over \<^verbatim>\<open>Object.entries(progress)\<close>.\<close>

fun assemble_files ::
  "string \<Rightarrow> progress_json \<Rightarrow> upload_dir \<Rightarrow> (string \<times> string) list
     \<Rightarrow> upload_dir \<times> (string \<times> string) list" where
  "assemble_files rid [] d urls = (d, urls)"
| "assemble_files rid ((ft, p) # ps) d urls =
     (case assemble ft (loop_indexes p) (chunks d) [] of
        (cs, written, ok) \<Rightarrow>
          assemble_files rid ps
            (d\<lparr>chunks := cs, finals := (finals d)(ft \<mapsto> written)\<rparr>)
            (if ok then urls @ [(ft, cloud_url rid ft)] else urls))"

text \<open>\<^verbatim>\<open>fileProgress.uploadedChunks !== fileProgress.totalChunks\<close>\<close>

definition incomplete :: "string \<times> file_progress \<Rightarrow> bool" where
  "incomplete e = (uploadedChunks (snd e) \<noteq> totalChunks (snd e))"

text \<open>\<^verbatim>\<open>SOSEvent.findOneAndUpdate({recordingId}, {...}, {upsert: true, new: true})\<close>:
  the first event of that recording is updated, or a new one (with the given
  fresh id) is inserted. The id of the event is returned.\<close>

fun upsert_event ::
  "nat \<Rightarrow> string \<Rightarrow> string \<Rightarrow> int \<Rightarrow> string \<Rightarrow> nat \<Rightarrow> sos_event list \<Rightarrow> sos_event list \<times> nat" where
  "upsert_event fresh rid uid ts st evid [] =
     ([\<lparr>se_id = fresh, se_recordingId = rid, se_userId = uid, se_timestamp = ts,
        se_status = st, se_evidence = Some evid, se_guardianResponses = []\<rparr>], fresh)"
| "upsert_event fresh rid uid ts st evid (e # es) =
     (if se_recordingId e = rid
      then (e\<lparr>se_userId := uid, se_timestamp := ts, se_status := st, se_evidence := Some evid\<rparr> # es,
            se_id e)
      else (case upsert_event fresh rid uid ts st evid es of (es', i) \<Rightarrow> (e # es', i)))"

text \<open>\<^verbatim>\<open>new Evidence({recordingId, userId, timestamp, duration, ...})\<close>: of the fields
  given, the schema has \<open>userId\<close> and \<open>timestamp\<close> only; the others are
  dropped. Neither \<open>sosId\<close> nor \<open>type\<close> is given.\<close>

definition new_recording_doc :: "nat \<Rightarrow> string \<Rightarrow> int \<Rightarrow> evidence_doc" where
  "new_recording_doc i uid ts =
     \<lparr>ev_id = i, ev_userId = uid, ev_sosId = None, ev_type = None, ev_timestamp = ts,
      ev_evidenceFiles = [], ev_sharedWith = [], ev_hash = None\<rparr>"

text \<open>The handler of \<^verbatim>\<open>POST /finalize-upload\<close>. When \<^verbatim>\<open>evidence.save()\<close> throws, the
  \<^verbatim>\<open>catch\<close> answers 500; the files assembled and the chunks unlinked so far stay
  as they are. The removal of the upload directory is deferred by
  \<^verbatim>\<open>setTimeout\<close>; the handler only registers the timer.\<close>

definition finalize_upload :: "server_state \<Rightarrow> caller \<Rightarrow> finalize_req \<Rightarrow> server_state \<times> reply" where
  "finalize_upload s c r =
     (case authenticateToken c of
        Inl rep \<Rightarrow> (s, rep)
      | Inr userId \<Rightarrow>
         (case fr_metadata r of
            None \<Rightarrow> (s, (400, Error ''Missing required fields: uploadId, recordingId, metadata''))
          | Some md \<Rightarrow>
             if fr_uploadId r = [] \<or> fr_recordingId r = []
             then (s, (400, Error ''Missing required fields: uploadId, recordingId, metadata''))
             else
               (case uploads s (fr_uploadId r) of
                  None \<Rightarrow> (s, (404, Error ''Upload session not found''))
                | Some d \<Rightarrow>
                   (case find incomplete (progress d) of
                      Some (ft, p) \<Rightarrow>
                        (s, (400, IncompleteUpload ft (uploadedChunks p) (totalChunks p)))
                    | None \<Rightarrow>
                       (case assemble_files (fr_recordingId r) (progress d) d [] of
                          (d', fileUrls) \<Rightarrow>
                            let evid = next_id s;
                                doc = new_recording_doc evid userId (md_timestamp md);
                                s1 = s\<lparr>uploads := (uploads s)(fr_uploadId r \<mapsto> d')\<rparr>
                            in if \<not> schema_valid doc
                               then (s1, (500, Error ''Failed to finalize upload''))
                               else
                                 let st = (if md_status md = [] then ''confirmed'' else md_status md);
                                     (events, eventId) =
                                        upsert_event (evid + 1) (fr_recordingId r) userId
                                          (md_timestamp md) st evid (sos_events s)
                                 in (s1\<lparr>evidence := evidence s @ [doc],
                                         sos_events := events,
                                         sos_history := sos_history s @ [(userId, eventId)],
                                         cleanup_timers := cleanup_timers s @ [fr_uploadId r],
                                         next_id := evid + 2\<rparr>,
                                     (200, Finalized evid (fr_recordingId r) fileUrls
                                             (fr_uploadId r))))))))"

text \<open>The timer registered by a successful finalisation:
  \<^verbatim>\<open>if (fs.existsSync(uploadDir)) fs.rmSync(uploadDir, {recursive: true})\<close>.\<close>

definition cleanup_timer :: "server_state \<Rightarrow> string \<Rightarrow> server_state" where
  "cleanup_timer s uploadId =
     s\<lparr>uploads := (uploads s)(uploadId := None),
       cleanup_timers := remove1 uploadId (cleanup_timers s)\<rparr>"

text \<open>The chunk indexes in \<open>0..totalChunks-1\<close> of a stream that have no chunk file.\<close>

definition missing_indexes :: "upload_dir \<Rightarrow> string \<Rightarrow> nat list" where
  "missing_indexes d ft =
     (case map_of (progress d) ft of
        None \<Rightarrow> []
      | Some p \<Rightarrow>
          (case totalChunks p of
             None \<Rightarrow> []
           | Some n \<Rightarrow> filter (\<lambda>i. chunks d (ft, i) = None) [0..<n]))"

section \<open>Evidence records\<close>

text \<open>
  What lies outside the repository is a parameter: SHA-256 of Node's
  \<^verbatim>\<open>crypto\<close> (hex digest), the random hex string of a secure URL (indexed by the
  document and the position of the file), and the \<open>strictQuery\<close> setting of
  the installed Mongoose, which decides what a filter on a path outside the
  schema does: with \<open>strictQuery\<close> the path is removed from the filter, without
  it the filter is passed on and matches no document of a strict schema.
\<close>

record externals =
  sha256 :: "buffer \<Rightarrow> string"
  randomHex :: "nat \<Rightarrow> nat \<Rightarrow> string"
  strictQuery :: bool

text \<open>
  \<^verbatim>\<open>src/routes/evidenceRoutes.js\<close> binds the model as
  \<^verbatim>\<open>const Evidence = require('../models/SOSEvidence')\<close> (line 14) and declares no
  identifier \<open>SOSEvidence\<close>; its handlers \<^verbatim>\<open>/upload\<close>, \<^verbatim>\<open>/user/all\<close>,
  \<^verbatim>\<open>/sos/:sosId\<close>, \<^verbatim>\<open>/:evidenceId/share\<close> and \<^verbatim>\<open>/file/:token\<close> refer to
  \<open>SOSEvidence\<close>. Evaluating an undeclared identifier throws a ReferenceError,
  which the \<^verbatim>\<open>catch\<close> of each handler turns into status 500. The sibling file
  \<^verbatim>\<open>src/unnamed/part_004\<close> holds the same five handlers (the same text) and
  declares \<^verbatim>\<open>const SOSEvidence = require('../models/SOSEvidence')\<close>. The handlers
  below take the binding as their first argument: \<open>True\<close> when the identifier
  is declared in the module. For \<^verbatim>\<open>/upload\<close> the argument also selects the multer
  configuration of that module.
\<close>

definition evidenceRoutes_SOSEvidence :: bool where
  "evidenceRoutes_SOSEvidence = False"

definition part_004_SOSEvidence :: bool where
  "part_004_SOSEvidence = True"

subsection \<open>Reading a recording\<close>

text \<open>\<^verbatim>\<open>Evidence.findOne({recordingId})\<close>: the schema has no path \<open>recordingId\<close>.\<close>

definition find_by_recordingId :: "externals \<Rightarrow> string \<Rightarrow> evidence_doc list \<Rightarrow> evidence_doc option" where
  "find_by_recordingId ext recordingId docs =
     (if strictQuery ext then (case docs of [] \<Rightarrow> None | e # _ \<Rightarrow> Some e) else None)"

text \<open>The handler of \<^verbatim>\<open>GET /:recordingId\<close>. Of the fields the reply reads from the
  document, the schema has \<open>timestamp\<close> only; the three URLs are \<open>null\<close>, so no
  token is ever signed.\<close>

definition get_evidence :: "externals \<Rightarrow> server_state \<Rightarrow> caller \<Rightarrow> string \<Rightarrow> server_state \<times> reply" where
  "get_evidence ext s c recordingId =
     (case authenticateToken c of
        Inl rep \<Rightarrow> (s, rep)
      | Inr userId \<Rightarrow>
         (case find_by_recordingId ext recordingId (evidence s) of
            None \<Rightarrow> (s, (404, Error ''Evidence not found''))
          | Some e \<Rightarrow>
             if ev_userId e \<noteq> userId
             then (s, (403, Error ''Access denied - not your evidence''))
             else (s, (200, EvidenceMeta (ev_timestamp e)))))"

subsection \<open>SOS events\<close>

text \<open>\<^verbatim>\<open>.limit(n).skip(k)\<close> of a query: skip first, then limit; a limit of zero is
  no limit.\<close>

definition paginate :: "nat \<Rightarrow> nat \<Rightarrow> 'a list \<Rightarrow> 'a list" where
  "paginate lmt skp xs = (if lmt = 0 then drop skp xs else take lmt (drop skp xs))"

text \<open>The handler of \<^verbatim>\<open>GET /\<close>; an absent \<open>limit\<close> is 50, an absent \<open>skip\<close> is 0.\<close>

definition list_events ::
  "server_state \<Rightarrow> caller \<Rightarrow> nat option \<Rightarrow> nat option \<Rightarrow> server_state \<times> reply" where
  "list_events s c q_limit q_skip =
     (case authenticateToken c of
        Inl rep \<Rightarrow> (s, rep)
      | Inr userId \<Rightarrow>
         (s, (200, EventList (paginate (case q_limit of None \<Rightarrow> 50 | Some n \<Rightarrow> n)
                (case q_skip of None \<Rightarrow> 0 | Some n \<Rightarrow> n)
                (sort_key (\<lambda>e. - se_timestamp e)
                   (filter (\<lambda>e. se_userId e = userId) (sos_events s)))))))"

text \<open>The handler of \<^verbatim>\<open>GET /events/:eventId\<close>.\<close>

definition get_event :: "server_state \<Rightarrow> caller \<Rightarrow> nat \<Rightarrow> server_state \<times> reply" where
  "get_event s c eventId =
     (case authenticateToken c of
        Inl rep \<Rightarrow> (s, rep)
      | Inr userId \<Rightarrow>
         (case find (\<lambda>e. se_id e = eventId) (sos_events s) of
            None \<Rightarrow> (s, (404, Error ''Event not found''))
          | Some e \<Rightarrow>
             if se_userId e \<noteq> userId then (s, (403, Error ''Access denied''))
             else (s, (200, EventDetail e))))"

text \<open>The handler of \<^verbatim>\<open>DELETE /events/:eventId\<close>.\<close>

definition delete_event :: "server_state \<Rightarrow> caller \<Rightarrow> nat \<Rightarrow> server_state \<times> reply" where
  "delete_event s c eventId =
     (case authenticateToken c of
        Inl rep \<Rightarrow> (s, rep)
      | Inr userId \<Rightarrow> (s, (403, Error ''Access denied'')))"

subsection \<open>Direct upload of evidence files\<close>

record uploaded_file =
  uf_fieldname :: string
  uf_mimetype :: string
  uf_originalname :: string
  uf_content :: buffer

record upload_req =
  ur_sosId :: string
  ur_type :: string
  ur_files :: "uploaded_file list"

text \<open>The two multer configurations: \<^verbatim>\<open>upload\<close> of \<^verbatim>\<open>evidenceRoutes.js\<close> (100 MB, no
  filter) and \<^verbatim>\<open>evidenceUpload\<close> of \<^verbatim>\<open>part_004\<close> (50 MB, six MIME types).\<close>

definition allowedTypes :: "string list" where
  "allowedTypes =
     [''video/mp4'', ''video/avi'', ''audio/mpeg'', ''audio/wav'', ''image/jpeg'', ''image/png'']"

definition file_size_limit :: "bool \<Rightarrow> nat" where
  "file_size_limit SOSEvidence = (if SOSEvidence then 50 * 1024 * 1024 else 100 * 1024 * 1024)"

definition fileFilter :: "bool \<Rightarrow> uploaded_file \<Rightarrow> bool" where
  "fileFilter SOSEvidence f = (if SOSEvidence then uf_mimetype f \<in> set allowedTypes else True)"

text \<open>\<^verbatim>\<open>.array('evidence', 10)\<close>: the files are taken in the order of the request;
  the first one under another field name, beyond the tenth, refused by the
  filter or above the size limit ends the request with an error (status 500).
  The argument \<open>k\<close> counts the files accepted so far.\<close>

fun multer_array :: "bool \<Rightarrow> nat \<Rightarrow> uploaded_file list \<Rightarrow> reply option" where
  "multer_array SOSEvidence k [] = None"
| "multer_array SOSEvidence k (f # fs) =
     (if uf_fieldname f \<noteq> ''evidence'' \<or> 10 \<le> k then Some (500, Error ''Unexpected field'')
      else if \<not> fileFilter SOSEvidence f then Some (500, Error ''Invalid file type'')
      else if file_size_limit SOSEvidence < length (uf_content f)
        then Some (500, Error ''File too large'')
      else multer_array SOSEvidence (Suc k) fs)"

definition getEvidenceType :: "string \<Rightarrow> string" where
  "getEvidenceType mimetype =
     (if take 6 mimetype = ''video/'' then ''video_front''
      else if take 6 mimetype = ''audio/'' then ''audio''
      else if take 6 mimetype = ''image/'' then ''photo''
      else ''unknown'')"

text \<open>The loop \<^verbatim>\<open>for (const file of req.files)\<close>: the stored file entries and the
  list \<open>fileHashes\<close>, both in the order of the request. The stored \<open>data\<close> is
  the base64 text of the content (empty exactly when the content is); the
  model keeps the content it decodes to.\<close>

fun process_files ::
  "externals \<Rightarrow> nat \<Rightarrow> nat \<Rightarrow> uploaded_file list \<Rightarrow> evidence_file list \<times> string list" where
  "process_files ext docId k [] = ([], [])"
| "process_files ext docId k (f # fs) =
     (case process_files ext docId (k + 1) fs of
        (uploadedFiles, fileHashes) \<Rightarrow>
          (\<lparr>ef_type = getEvidenceType (uf_mimetype f), ef_filename = uf_originalname f,
            ef_data = uf_content f,
            ef_secureUrl = ''/api/evidence/file/'' @ randomHex ext docId k,
            ef_size = length (uf_content f), ef_mimeType = uf_mimetype f\<rparr> # uploadedFiles,
           sha256 ext (uf_content f) # fileHashes))"

text \<open>The handler of \<^verbatim>\<open>POST /upload\<close>. The timestamp of the document is the
  schema's default, the time of construction.\<close>

definition upload_evidence ::
  "bool \<Rightarrow> externals \<Rightarrow> int \<Rightarrow> server_state \<Rightarrow> caller \<Rightarrow> upload_req \<Rightarrow> server_state \<times> reply" where
  "upload_evidence SOSEvidence ext now s c r =
     (case authenticateToken c of
        Inl rep \<Rightarrow> (s, rep)
      | Inr userId \<Rightarrow>
         (case multer_array SOSEvidence 0 (ur_files r) of
            Some rep \<Rightarrow> (s, rep)
          | None \<Rightarrow>
             if ur_files r = [] then (s, (400, Error ''No evidence files provided''))
             else
               (case process_files ext (next_id s) 0 (ur_files r) of
                  (uploadedFiles, fileHashes) \<Rightarrow>
                    if \<not> SOSEvidence then (s, (500, Error ''Server error''))
                    else
                      let h = sha256 ext (concat fileHashes);
                          doc = \<lparr>ev_id = next_id s, ev_userId = userId,
                                 ev_sosId = Some (ur_sosId r), ev_type = Some (ur_type r),
                                 ev_timestamp = now,
                                 ev_evidenceFiles = uploadedFiles, ev_sharedWith = [],
                                 ev_hash = Some h\<rparr>
                      in if \<not> schema_valid doc then (s, (500, Error ''Server error''))
                         else (s\<lparr>evidence := evidence s @ [doc], next_id := next_id s + 1\<rparr>,
                               (200, UploadAck (next_id s) uploadedFiles h)))))"

subsection \<open>Listing, sharing and downloading\<close>

text \<open>The handler of \<^verbatim>\<open>GET /user/all\<close>; the reply leaves the file data out.
  \<^verbatim>\<open>parseInt(req.query.limit) || 20\<close> and \<^verbatim>\<open>parseInt(req.query.page) || 1\<close>: zero
  and an absent parameter give the default.\<close>

definition user_all ::
  "bool \<Rightarrow> server_state \<Rightarrow> caller \<Rightarrow> nat \<Rightarrow> nat \<Rightarrow> server_state \<times> reply" where
  "user_all SOSEvidence s c q_limit q_page =
     (case authenticateToken c of
        Inl rep \<Rightarrow> (s, rep)
      | Inr userId \<Rightarrow>
         if \<not> SOSEvidence then (s, (500, Error ''Server error''))
         else (s, (200, EvidenceList
                 (map (\<lambda>e. e\<lparr>ev_evidenceFiles := map (\<lambda>f. f\<lparr>ef_data := []\<rparr>) (ev_evidenceFiles e)\<rparr>)
                    (let lmt = (if q_limit = 0 then 20 else q_limit);
                         page = (if q_page = 0 then 1 else q_page)
                     in paginate lmt ((page - 1) * lmt)
                          (sort_key (\<lambda>e. - ev_timestamp e)
                             (filter (\<lambda>e. ev_userId e = userId) (evidence s))))))))"

text \<open>The handler of \<^verbatim>\<open>GET /sos/:sosId\<close>; newest first.\<close>

definition get_sos_evidence ::
  "bool \<Rightarrow> server_state \<Rightarrow> caller \<Rightarrow> string \<Rightarrow> server_state \<times> reply" where
  "get_sos_evidence SOSEvidence s c sosId =
     (case authenticateToken c of
        Inl rep \<Rightarrow> (s, rep)
      | Inr userId \<Rightarrow>
         if \<not> SOSEvidence then (s, (500, Error ''Server error''))
         else (s, (200, EvidenceList
                 (rev (filter (\<lambda>e. ev_sosId e = Some sosId \<and> ev_userId e = userId) (evidence s))))))"

text \<open>\<^verbatim>\<open>evidence.sharedWith.push(...shareRecords); await evidence.save()\<close> on the
  first document matching \<^verbatim>\<open>{_id, userId}\<close>.\<close>

fun push_shares :: "nat \<Rightarrow> string \<Rightarrow> share_record list \<Rightarrow> evidence_doc list \<Rightarrow> evidence_doc list" where
  "push_shares i uid recs [] = []"
| "push_shares i uid recs (e # es) =
     (if ev_id e = i \<and> ev_userId e = uid
      then e\<lparr>ev_sharedWith := ev_sharedWith e @ recs\<rparr> # es
      else e # push_shares i uid recs es)"

text \<open>The handler of \<^verbatim>\<open>PUT /:evidenceId/share\<close>. A body without \<open>shareWith\<close> makes
  \<^verbatim>\<open>shareWith.map\<close> throw, after the lookup; \<open>save\<close> validates the document with
  the entries pushed.\<close>

definition share_evidence ::
  "bool \<Rightarrow> int \<Rightarrow> server_state \<Rightarrow> caller \<Rightarrow> nat \<Rightarrow> string list option \<Rightarrow> server_state \<times> reply" where
  "share_evidence SOSEvidence now s c evidenceId shareWith =
     (case authenticateToken c of
        Inl rep \<Rightarrow> (s, rep)
      | Inr userId \<Rightarrow>
         if \<not> SOSEvidence then (s, (500, Error ''Server error''))
         else
           (case find (\<lambda>e. ev_id e = evidenceId \<and> ev_userId e = userId) (evidence s) of
              None \<Rightarrow> (s, (404, Error ''Evidence not found''))
            | Some e \<Rightarrow>
               (case shareWith of
                  None \<Rightarrow> (s, (500, Error ''Server error''))
                | Some types \<Rightarrow>
                   let shareRecords = map (\<lambda>t. \<lparr>sr_type = t, sr_sharedAt = now\<rparr>) types
                   in if \<not> schema_valid (e\<lparr>ev_sharedWith := ev_sharedWith e @ shareRecords\<rparr>)
                      then (s, (500, Error ''Server error''))
                      else (s\<lparr>evidence := push_shares evidenceId userId shareRecords (evidence s)\<rparr>,
                            (200, ShareAck (ev_sharedWith e @ shareRecords))))))"

text \<open>The handler of \<^verbatim>\<open>GET /file/:token\<close>.\<close>

definition get_file ::
  "bool \<Rightarrow> server_state \<Rightarrow> caller \<Rightarrow> string \<Rightarrow> server_state \<times> reply" where
  "get_file SOSEvidence s c tok =
     (case authenticateToken c of
        Inl rep \<Rightarrow> (s, rep)
      | Inr userId \<Rightarrow>
         if \<not> SOSEvidence then (s, (500, Error ''Server error''))
         else
           (case find (\<lambda>e. (''/api/evidence/file/'' @ tok) \<in> set (map ef_secureUrl (ev_evidenceFiles e))
                            \<and> ev_userId e = userId) (evidence s) of
              None \<Rightarrow> (s, (404, Error ''File not found''))
            | Some e \<Rightarrow>
               (case find (\<lambda>f. ef_secureUrl f = ''/api/evidence/file/'' @ tok) (ev_evidenceFiles e) of
                  None \<Rightarrow> (s, (404, Error ''File not found''))
                | Some f \<Rightarrow> (s, (200, FileBody (ef_mimeType f) (ef_filename f) (ef_data f))))))"

section \<open>Guardian responses\<close>

record respond_req =
  rq_sosEventId :: nat
  rq_action :: string
  rq_reason :: string

text \<open>The handler of \<^verbatim>\<open>POST /guardians/:guardianId/respond\<close> in
  \<^verbatim>\<open>src/routes/advancedSOSRoutes.js\<close>. The route has no authentication
  middleware. Saving the response and pushing it to the event are commented
  out in the source, and the branch for \<open>ACCEPTED\<close> is empty.\<close>

definition respond :: "int \<Rightarrow> server_state \<Rightarrow> string \<Rightarrow> respond_req \<Rightarrow> server_state \<times> reply" where
  "respond now s guardianId r =
     (let response = \<lparr>gr_guardianId = guardianId, gr_sosEventId = rq_sosEventId r,
                       gr_action = rq_action r, gr_reason = rq_reason r,
                       gr_respondedAt = now\<rparr>;
          s' = (if rq_action r = ''ACCEPTED'' then s else s)
      in (s', (200, RespondAck response)))"

text \<open>The status of an incident and the responses recorded for it.\<close>

definition incident_status :: "server_state \<Rightarrow> nat \<Rightarrow> string option" where
  "incident_status s i = map_option se_status (find (\<lambda>e. se_id e = i) (sos_events s))"

definition incident_responses :: "server_state \<Rightarrow> nat \<Rightarrow> guardian_response list" where
  "incident_responses s i =
     (case find (\<lambda>e. se_id e = i) (sos_events s) of
        None \<Rightarrow> []
      | Some e \<Rightarrow> se_guardianResponses e)"

section \<open>Nearby volunteers\<close>

record user_doc =
  u_id :: nat
  u_name :: string
  u_mobile :: string
  u_isVolunteer :: bool
  u_volunteerLocation :: "(real \<times> real) option"
  u_volunteerLastActive :: "int option"

text \<open>The geometry is outside the model: the distance MongoDB's \<^verbatim>\<open>$near\<close> orders
  and bounds by, and the floating-point Haversine of \<^verbatim>\<open>calculateDistance\<close> that
  only decorates the reply. Coordinates are pairs (longitude, latitude).\<close>

record geometry =
  nearDistance :: "real \<times> real \<Rightarrow> real \<times> real \<Rightarrow> real"
  calculateDistance :: "real \<Rightarrow> real \<Rightarrow> real \<Rightarrow> real \<Rightarrow> real"

text \<open>The middleware of the volunteer router (\<^verbatim>\<open>src/unnamed/part_005\<close>).\<close>

definition volunteer_authenticateToken :: "caller \<Rightarrow> reply + string" where
  "volunteer_authenticateToken c =
     (case c of
        NoToken \<Rightarrow> Inl (401, Error ''Access token required'')
      | InvalidToken \<Rightarrow> Inl (403, Error ''Invalid token'')
      | Authenticated u \<Rightarrow> Inr u)"

definition day_ms :: int where
  "day_ms = 24 * 60 * 60 * 1000"

text \<open>The filter of the query: a volunteer, active at or after \<open>now - 24h\<close>, with a
  location within the radius.\<close>

definition matches :: "geometry \<Rightarrow> int \<Rightarrow> real \<times> real \<Rightarrow> real \<Rightarrow> user_doc \<Rightarrow> bool" where
  "matches g now origin searchRadius u =
     (u_isVolunteer u \<and>
      (case u_volunteerLastActive u of None \<Rightarrow> False | Some t \<Rightarrow> now - day_ms \<le> t) \<and>
      (case u_volunteerLocation u of
         None \<Rightarrow> False
       | Some loc \<Rightarrow> nearDistance g origin loc \<le> searchRadius))"

definition volunteer_view_of :: "geometry \<Rightarrow> real \<Rightarrow> real \<Rightarrow> user_doc \<Rightarrow> volunteer_view" where
  "volunteer_view_of g latitude longitude v =
     (let loc = (case u_volunteerLocation v of None \<Rightarrow> (0, 0) | Some l \<Rightarrow> l)
      in \<lparr>vv_id = u_id v, vv_name = u_name v, vv_mobile = u_mobile v, vv_location = loc,
          vv_lastActive = (case u_volunteerLastActive v of None \<Rightarrow> 0 | Some t \<Rightarrow> t),
          vv_distance = calculateDistance g latitude longitude (snd loc) (fst loc)\<rparr>)"

text \<open>The query of \<^verbatim>\<open>GET /nearby/:lat/:lng/:radius\<close>: nearest first, at most 20.
  The three route parameters are the numbers \<^verbatim>\<open>parseFloat\<close> yields; as segments of
  the path they are never empty, so the guard \<^verbatim>\<open>!lat || !lng || !radius\<close> never
  fires.\<close>

definition nearby_query :: "geometry \<Rightarrow> int \<Rightarrow> real \<Rightarrow> real \<Rightarrow> real \<Rightarrow> user_doc list \<Rightarrow> user_doc list" where
  "nearby_query g now latitude longitude searchRadius users =
     take 20
       (sort_key (\<lambda>u. case u_volunteerLocation u of
                         None \<Rightarrow> 0
                       | Some loc \<Rightarrow> nearDistance g (longitude, latitude) loc)
          (filter (matches g now (longitude, latitude) searchRadius) users))"

definition nearby ::
  "geometry \<Rightarrow> int \<Rightarrow> user_doc list \<Rightarrow> caller \<Rightarrow> real \<Rightarrow> real \<Rightarrow> real \<Rightarrow> reply" where
  "nearby g now users c latitude longitude searchRadius =
     (case volunteer_authenticateToken c of
        Inl rep \<Rightarrow> rep
      | Inr userId \<Rightarrow>
         let volunteers = nearby_query g now latitude longitude searchRadius users
         in (200, Volunteers (length volunteers)
                    (map (volunteer_view_of g latitude longitude) volunteers)))"

section \<open>The evidence router as a transition system\<close>

datatype request =
    UploadChunk chunk_req
  | FinalizeUpload finalize_req
  | GetEvidence string
  | ListEvents "nat option" "nat option"
  | GetEvent nat
  | DeleteEvent nat
  | UploadEvidence upload_req
  | UserAll nat nat
  | GetSosEvidence string
  | ShareEvidence nat "string list option"
  | GetFile string
  | DeleteUnrouted string
  | Respond string respond_req

text \<open>One request against the server. \<open>DeleteUnrouted\<close> is a \<open>DELETE\<close> on any
  path other than \<^verbatim>\<open>/events/:eventId\<close>: the router has no such route and
  Express answers 404.\<close>

definition handle ::
  "bool \<Rightarrow> externals \<Rightarrow> int \<Rightarrow> server_state \<Rightarrow> caller \<Rightarrow> request \<Rightarrow> server_state \<times> reply" where
  "handle SOSEvidence ext now s c req =
     (case req of
        UploadChunk r \<Rightarrow> upload_chunk s c r
      | FinalizeUpload r \<Rightarrow> finalize_upload s c r
      | GetEvidence recordingId \<Rightarrow> get_evidence ext s c recordingId
      | ListEvents l k \<Rightarrow> list_events s c l k
      | GetEvent i \<Rightarrow> get_event s c i
      | DeleteEvent i \<Rightarrow> delete_event s c i
      | UploadEvidence r \<Rightarrow> upload_evidence SOSEvidence ext now s c r
      | UserAll l k \<Rightarrow> user_all SOSEvidence s c l k
      | GetSosEvidence sosId \<Rightarrow> get_sos_evidence SOSEvidence s c sosId
      | ShareEvidence i shareWith \<Rightarrow> share_evidence SOSEvidence now s c i shareWith
      | GetFile tok \<Rightarrow> get_file SOSEvidence s c tok
      | DeleteUnrouted path \<Rightarrow> (s, (404, Error (''Cannot DELETE '' @ path)))
      | Respond guardianId r \<Rightarrow> respond now s guardianId r)"

fun run :: "bool \<Rightarrow> externals \<Rightarrow> int \<Rightarrow> server_state \<Rightarrow> (caller \<times> request) list \<Rightarrow> server_state" where
  "run SOSEvidence ext now s [] = s"
| "run SOSEvidence ext now s ((c, req) # rest) =
     run SOSEvidence ext now (fst (handle SOSEvidence ext now s c req)) rest"


section \<open>The canonical order of the specification\<close>

text \<open>
  The specification asks for the hash of the per-stream content hashes "in
  stream-type-canonical order". The source has no order on stream types; the
  definition below follows the specification's words, ranking a stream type by
  its position in the schema's enumeration
  \<^verbatim>\<open>['video_front', 'video_back', 'audio', 'photo']\<close> (\<^verbatim>\<open>src/models/SOSEvidence.js\<close>).
  It is only compared with what the source computes.
\<close>

definition stream_rank :: "string \<Rightarrow> nat" where
  "stream_rank t =
     (if t = ''video_front'' then 0 else if t = ''video_back'' then 1
      else if t = ''audio'' then 2 else if t = ''photo'' then 3 else 4)"

definition spec_combinedHash :: "externals \<Rightarrow> evidence_file list \<Rightarrow> string" where
  "spec_combinedHash ext files =
     sha256 ext (concat (map (\<lambda>f. sha256 ext (ef_data f)) (sort_key (\<lambda>f. stream_rank (ef_type f)) files)))"

section \<open>Concrete inputs\<close>

definition alice :: caller where
  "alice = Authenticated ''alice''"

definition bob :: caller where
  "bob = Authenticated ''bob''"

definition chunk :: "string \<Rightarrow> nat \<Rightarrow> nat \<Rightarrow> buffer \<Rightarrow> chunk_req" where
  "chunk ft i n data =
     \<lparr>cr_uploadId = ''up1'', cr_recordingId = ''rec1'', cr_fileType = ft,
      cr_chunkIndex = Some i, cr_totalChunks = Some n, cr_file = Some data,
      cr_fieldname = ''chunk''\<rparr>"

definition fin :: finalize_req where
  "fin = \<lparr>fr_uploadId = ''up1'', fr_recordingId = ''rec1'',
          fr_metadata = Some \<lparr>md_timestamp = 1000, md_status = []\<rparr>\<rparr>"

text \<open>The state after \<open>alice\<close> has sent the given chunks, in the order of the list.\<close>

fun receive :: "server_state \<Rightarrow> chunk_req list \<Rightarrow> server_state" where
  "receive s [] = s"
| "receive s (r # rs) = receive (fst (upload_chunk s alice r)) rs"

definition dir_of :: "server_state \<Rightarrow> upload_dir" where
  "dir_of s = (case uploads s ''up1'' of None \<Rightarrow> empty_dir | Some d \<Rightarrow> d)"

text \<open>Stand-ins for the collaborators, for evaluation only: the hash is the
  identity on its message. \<open>toy\<close> has \<open>strictQuery\<close> set, \<open>toy_loose\<close> has
  not.\<close>

definition toy :: externals where
  "toy = \<lparr>sha256 = (\<lambda>b. b), randomHex = (\<lambda>d k. replicate (Suc k) CHR ''a''),
          strictQuery = True\<rparr>"

definition toy_loose :: externals where
  "toy_loose = \<lparr>sha256 = (\<lambda>b. b), randomHex = (\<lambda>d k. replicate (Suc k) CHR ''a''),
          strictQuery = False\<rparr>"

definition audio_file :: uploaded_file where
  "audio_file = \<lparr>uf_fieldname = ''evidence'', uf_mimetype = ''audio/wav'',
                 uf_originalname = ''a.wav'', uf_content = ''AUDIO''\<rparr>"

definition video_file :: uploaded_file where
  "video_file = \<lparr>uf_fieldname = ''evidence'', uf_mimetype = ''video/mp4'',
                 uf_originalname = ''v.mp4'', uf_content = ''VIDEO''\<rparr>"

definition upload_av :: upload_req where
  "upload_av = \<lparr>ur_sosId = ''sos1'', ur_type = ''panic'', ur_files = [audio_file, video_file]\<rparr>"

definition upload_va :: upload_req where
  "upload_va = \<lparr>ur_sosId = ''sos1'', ur_type = ''panic'', ur_files = [video_file, audio_file]\<rparr>"

text \<open>A state holding one evidence record of \<open>alice\<close>, as \<^verbatim>\<open>/upload\<close> stores it.\<close>

definition alice_doc :: evidence_doc where
  "alice_doc =
     \<lparr>ev_id = 0, ev_userId = ''alice'', ev_sosId = Some ''sos1'', ev_type = Some ''panic'',
      ev_timestamp = 1000,
      ev_evidenceFiles =
        [\<lparr>ef_type = ''audio'', ef_filename = ''a.wav'', ef_data = ''AUDIO'',
          ef_secureUrl = ''/api/evidence/file/a'', ef_size = 5, ef_mimeType = ''audio/wav''\<rparr>],
      ev_sharedWith = [], ev_hash = Some ''AUDIO''\<rparr>"

definition stored :: server_state where
  "stored = init_state\<lparr>evidence := [alice_doc], next_id := 1\<rparr>"

text \<open>A state holding one open incident, as \<^verbatim>\<open>POST /api/sos/start\<close> of
  \<^verbatim>\<open>src/index.js\<close> stores it (status \<open>active\<close>).\<close>

definition open_incident :: server_state where
  "open_incident =
     init_state\<lparr>sos_events :=
       [\<lparr>se_id = 7, se_recordingId = ''rec7'', se_userId = ''alice'', se_timestamp = 1000,
         se_status = ''active'', se_evidence = None, se_guardianResponses = []\<rparr>],
       next_id := 8\<rparr>"

definition accept :: respond_req where
  "accept = \<lparr>rq_sosEventId = 7, rq_action = ''ACCEPTED'', rq_reason = ''on my way''\<rparr>"

definition flat :: geometry where
  "flat = \<lparr>nearDistance = (\<lambda>a b. \<bar>fst a - fst b\<bar> + \<bar>snd a - snd b\<bar>),
           calculateDistance = (\<lambda>lat1 lng1 lat2 lng2. \<bar>lat1 - lat2\<bar> + \<bar>lng1 - lng2\<bar>)\<rparr>"

definition fresh_volunteer :: user_doc where
  "fresh_volunteer =
     \<lparr>u_id = 1, u_name = ''Vera'', u_mobile = ''111'', u_isVolunteer = True,
      u_volunteerLocation = Some (0, 0), u_volunteerLastActive = Some 90000000\<rparr>"

definition stale_volunteer :: user_doc where
  "stale_volunteer =
     \<lparr>u_id = 2, u_name = ''Sam'', u_mobile = ''222'', u_isVolunteer = True,
      u_volunteerLocation = Some (0, 0), u_volunteerLastActive = Some 1000\<rparr>"

section \<open>Preservation of evidence records\<close>

text \<open>A stored record \<open>e\<close> and what became of it: the same id and owner, and a
  \<open>sharedWith\<close> list that extends the old one.\<close>

definition grows :: "evidence_doc \<Rightarrow> evidence_doc \<Rightarrow> bool" where
  "grows e e' =
     (ev_id e' = ev_id e \<and> ev_userId e' = ev_userId e \<and>
      prefix (ev_sharedWith e) (ev_sharedWith e'))"

text \<open>Every record of the collection \<open>es\<close> is still there in \<open>es'\<close>, at its
  position, grown.\<close>

definition kept :: "evidence_doc list \<Rightarrow> evidence_doc list \<Rightarrow> bool" where
  "kept es es' = (length es \<le> length es' \<and> list_all2 grows es (take (length es) es'))"

section \<open>Properties of the chunked upload\<close>

lemma two53_lt: "(2::nat) ^ 53 < 2 ^ 1024"
  by (rule power_strict_increasing) simp_all

text \<open>Below \<open>2^53\<close> numbers are exact.\<close>

lemma js_number_small: "n < 2 ^ 53 \<Longrightarrow> js_number n = Some n"
proof -
  assume a: "n < 2 ^ 53"
  have b: "n < 2 ^ 1024" by (rule less_trans [OF a two53_lt])
  have "to_double n = n" unfolding to_double_def using a by (simp only: if_True)
  with b show ?thesis unfolding js_number_def Let_def by (simp only: if_True)
qed

lemma parseInt_small: "n < 2 ^ 53 \<Longrightarrow> parseInt (Some n) = Some n"
  by (simp add: parseInt_def js_number_small)

lemma js_plus_one_small: "n + 1 < 2 ^ 53 \<Longrightarrow> js_plus_one (Some n) = Some (n + 1)"
  by (simp add: js_plus_one_def js_number_small)

text \<open>At \<open>2^53\<close> the increment is lost: the double nearest to \<open>2^53 + 1\<close> is
  \<open>2^53\<close>.\<close>

lemma floorlog_two53_succ: "floorlog 2 ((2::nat) ^ 53 + 1) = 54"
proof -
  have "(2::nat) ^ 53 + 1 < 2 ^ 54" by simp
  then have "floorlog 2 ((2::nat) ^ 53 + 1) \<le> 54" by (intro floorlog_leI) simp_all
  moreover have "Suc 53 \<le> floorlog 2 ((2::nat) ^ 53 + 1)"
    by (intro floorlog_ge_SucI) simp_all
  ultimately show ?thesis by simp
qed

lemma to_double_two53_succ: "to_double (2 ^ 53 + 1) = 2 ^ 53"
  unfolding to_double_def floorlog_two53_succ Let_def by simp

lemma to_double_two53: "to_double (2 ^ 53) = 2 ^ 53"
proof -
  have fl: "floorlog 2 ((2::nat) ^ 53) = 54"
    using floorlog_power [of 1 2 53] by (simp del: power_numeral add: floorlog_def)
  have "\<not> (2::nat) ^ 53 < 2 ^ 53" by (simp only: less_irrefl not_False_eq_True)
  then show ?thesis
    unfolding to_double_def fl Let_def
    by (simp only: if_False) (simp del: power_numeral)
qed

lemma js_plus_one_rounds: "js_plus_one (parseInt (Some (2 ^ 53))) = Some (2 ^ 53)"
proof -
  have a: "js_number (2 ^ 53) = Some (2 ^ 53)"
    unfolding js_number_def Let_def to_double_two53 using two53_lt by (simp only: if_True)
  have b: "js_number (2 ^ 53 + 1) = Some (2 ^ 53)"
    unfolding js_number_def Let_def to_double_two53_succ using two53_lt by (simp only: if_True)
  show ?thesis
    unfolding parseInt_def js_plus_one_def option.case a b ..
qed

lemma map_fst_set_uploaded:
  "map fst (set_uploaded ft n pj) = map fst pj"
  by (induction pj) auto

lemma fst_set_uploaded:
  "fst ` set (set_uploaded ft n pj) = fst ` set pj"
  using map_fst_set_uploaded [of ft n pj] by (metis set_map)

lemma set_uploaded_idem:
  "set_uploaded ft n (set_uploaded ft n pj) = set_uploaded ft n pj"
  by (induction pj) auto

lemma track_progress_declared:
  "ft \<notin> set inherited_names \<Longrightarrow> ft \<in> fst ` set (track_progress ft idx tot pj)"
  by (simp add: track_progress_def Let_def fst_set_uploaded map_of_eq_None_iff)

lemma track_progress_inherited:
  "ft \<in> set inherited_names \<Longrightarrow> track_progress ft idx tot pj = pj"
  by (simp add: track_progress_def)

lemma track_progress_idem:
  "track_progress ft idx tot (track_progress ft idx tot pj) = track_progress ft idx tot pj"
proof (cases "ft \<in> set inherited_names")
  case True
  then show ?thesis by (simp add: track_progress_inherited)
next
  case False
  then have "map_of (track_progress ft idx tot pj) ft \<noteq> None"
    using track_progress_declared [of ft idx tot pj] by (simp add: map_of_eq_None_iff)
  with False have "track_progress ft idx tot (track_progress ft idx tot pj)
          = set_uploaded ft (js_plus_one idx) (track_progress ft idx tot pj)"
    unfolding track_progress_def [of ft idx tot "track_progress ft idx tot pj"] Let_def
    by (simp only: if_False)
  also have "\<dots> = track_progress ft idx tot pj"
    using False by (simp add: track_progress_def Let_def set_uploaded_idem)
  finally show ?thesis .
qed



text \<open>An immediate repetition of a request reproduces state and reply.\<close>

lemma upload_chunk_idempotent:
  "upload_chunk (fst (upload_chunk s c r)) c r = upload_chunk s c r"
  by (cases c; cases "cr_chunkIndex r"; cases "cr_file r";
      cases "multer_single (cr_fieldname r) (cr_file r)")
     (simp_all add: upload_chunk_def authenticateToken_def Let_def track_progress_idem)

lemmas eval_upload =
  upload_chunk_def authenticateToken_def alice_def chunk_def init_state_def
  empty_dir_def track_progress_def dir_of_def Let_def finalize_upload_def fin_def
  incomplete_def loop_indexes_def missing_indexes_def new_recording_doc_def cloud_url_def
  multer_single_def chunk_size_limit_def rename_throws_def inherited_names_def
  parseInt_small js_plus_one_small schema_valid_def

text \<open>
  C3 at a concrete input. Chunk 0 and chunk 1 of a two-chunk stream have been
  received and the counter of the stream is 2. Chunk 0 is then sent again with
  the same bytes and is accepted. The chunk files are as before (one file per
  index, the same bytes), but the counter is 1 afterwards: it holds the index
  of the chunk received last plus one, not the number of chunks received. A
  finalisation is then refused as incomplete although no index is missing.
\<close>

theorem retry_rewinds_counter:
  "map_option uploadedChunks (map_of (progress (dir_of (receive init_state
       [chunk ''audio'' 0 2 ''aa'', chunk ''audio'' 1 2 ''bb'']))) ''audio'') = Some (Some 2)
   \<and> fst (snd (upload_chunk (receive init_state
       [chunk ''audio'' 0 2 ''aa'', chunk ''audio'' 1 2 ''bb'']) alice
       (chunk ''audio'' 0 2 ''aa''))) = 200
   \<and> chunks (dir_of (receive init_state
       [chunk ''audio'' 0 2 ''aa'', chunk ''audio'' 1 2 ''bb'', chunk ''audio'' 0 2 ''aa'']))
       (''audio'', 0) = Some ''aa''
   \<and> chunks (dir_of (receive init_state
       [chunk ''audio'' 0 2 ''aa'', chunk ''audio'' 1 2 ''bb'', chunk ''audio'' 0 2 ''aa'']))
       (''audio'', 1) = Some ''bb''
   \<and> map_option uploadedChunks (map_of (progress (dir_of (receive init_state
       [chunk ''audio'' 0 2 ''aa'', chunk ''audio'' 1 2 ''bb'', chunk ''audio'' 0 2 ''aa''])))
       ''audio'') = Some (Some 1)
   \<and> missing_indexes (dir_of (receive init_state
       [chunk ''audio'' 0 2 ''aa'', chunk ''audio'' 1 2 ''bb'', chunk ''audio'' 0 2 ''aa'']))
       ''audio'' = []
   \<and> snd (finalize_upload (receive init_state
       [chunk ''audio'' 0 2 ''aa'', chunk ''audio'' 1 2 ''bb'', chunk ''audio'' 0 2 ''aa''])
       alice fin)
       = (400, IncompleteUpload ''audio'' (Some 1) (Some 2))"
  by (simp add: eval_upload upt_rec)





section \<open>Properties of finalisation\<close>

text \<open>The document that finalisation constructs never passes the validators:
  it has no \<open>sosId\<close> (and no \<open>type\<close>).\<close>

lemma new_recording_doc_invalid: "\<not> schema_valid (new_recording_doc i uid ts)"
  by (simp add: schema_valid_def new_recording_doc_def)

text \<open>So finalisation never stores a record, never touches an event and never
  registers a timer; it answers 400, 404 or 500.\<close>

lemma finalize_upload_stores_nothing:
  "evidence (fst (finalize_upload s c r)) = evidence s
   \<and> sos_events (fst (finalize_upload s c r)) = sos_events s
   \<and> cleanup_timers (fst (finalize_upload s c r)) = cleanup_timers s
   \<and> fst (snd (finalize_upload s c r)) \<noteq> 200"
  by (auto simp: finalize_upload_def authenticateToken_def Let_def new_recording_doc_invalid
           split: sum.splits caller.splits option.splits prod.splits)

text \<open>
  C1, as the source has it. If the progress entry of some stream of the session
  has \<open>uploadedChunks\<close> (the index of the chunk received last, plus one)
  different from \<open>totalChunks\<close>, finalisation by an authenticated caller with a
  complete request is refused with status 400 and the "Incomplete upload"
  error of one such stream, carrying the two counters; the server state is
  returned as it was, so no evidence record is created and the session
  directory is untouched.
\<close>

theorem finalize_incomplete_rejected:
  assumes "uploads s (fr_uploadId r) = Some d"
    and "(ft, p) \<in> set (progress d)"
    and "uploadedChunks p \<noteq> totalChunks p"
    and "fr_uploadId r \<noteq> []" and "fr_recordingId r \<noteq> []" and "fr_metadata r = Some md"
  shows "\<exists>ft' p'. (ft', p') \<in> set (progress d) \<and> uploadedChunks p' \<noteq> totalChunks p'
           \<and> finalize_upload s (Authenticated u) r
               = (s, (400, IncompleteUpload ft' (uploadedChunks p') (totalChunks p')))"
proof -
  from assms(2,3) have "\<exists>e \<in> set (progress d). incomplete e"
    by (intro bexI [of _ "(ft, p)"]) (simp_all add: incomplete_def)
  then obtain e where e: "find incomplete (progress d) = Some e"
    by (cases "find incomplete (progress d)") (auto simp: find_None_iff)
  obtain ft' p' where fp: "e = (ft', p')" by (cases e)
  from e have "e \<in> set (progress d)" and "incomplete e"
    by (auto simp: find_Some_iff)
  with fp have "(ft', p') \<in> set (progress d)" and "uploadedChunks p' \<noteq> totalChunks p'"
    by (auto simp: incomplete_def)
  moreover from assms(1,4,5,6) e fp
  have "finalize_upload s (Authenticated u) r
          = (s, (400, IncompleteUpload ft' (uploadedChunks p') (totalChunks p')))"
    by (simp add: finalize_upload_def authenticateToken_def)
  ultimately show ?thesis by blast
qed

theorem finalize_incomplete_rejected_witness:
  "uploads (receive init_state [chunk ''audio'' 0 3 ''aa'']) (fr_uploadId fin)
      = Some (dir_of (receive init_state [chunk ''audio'' 0 3 ''aa'']))
   \<and> (''audio'', \<lparr>uploadedChunks = Some 1, totalChunks = Some 3\<rparr>)
        \<in> set (progress (dir_of (receive init_state [chunk ''audio'' 0 3 ''aa''])))
   \<and> finalize_upload (receive init_state [chunk ''audio'' 0 3 ''aa'']) (Authenticated ''alice'') fin
        = (receive init_state [chunk ''audio'' 0 3 ''aa''],
           (400, IncompleteUpload ''audio'' (Some 1) (Some 3)))"
  using finalize_incomplete_rejected
          [of "receive init_state [chunk ''audio'' 0 3 ''aa'']" fin
              "dir_of (receive init_state [chunk ''audio'' 0 3 ''aa''])" "''audio''"
              "\<lparr>uploadedChunks = Some 1, totalChunks = Some 3\<rparr>"
              "\<lparr>md_timestamp = 1000, md_status = []\<rparr>" "''alice''"]
  by (simp add: eval_upload)

text \<open>
  C1, as the claim states it, fails on two counts. First, a session that holds
  the chunks 0 and 2 of a three-chunk stream, chunk 2 received last, misses
  index 1; finalisation does not answer with the "Incomplete upload" error but
  with 500 "Failed to finalize upload", and the session is not left as it was:
  the file of chunk 0 has been unlinked. Second, the error carries counters,
  not indexes: a session missing the indexes 1 and 2 and a session missing only
  index 2 get the same error.
\<close>

theorem finalize_gap_counterexample:
  "missing_indexes (dir_of (receive init_state
       [chunk ''audio'' 0 3 ''aa'', chunk ''audio'' 2 3 ''cc''])) ''audio'' = [1]
   \<and> chunks (dir_of (receive init_state
       [chunk ''audio'' 0 3 ''aa'', chunk ''audio'' 2 3 ''cc''])) (''audio'', 0) = Some ''aa''
   \<and> snd (finalize_upload (receive init_state
       [chunk ''audio'' 0 3 ''aa'', chunk ''audio'' 2 3 ''cc'']) alice fin)
        = (500, Error ''Failed to finalize upload'')
   \<and> chunks (dir_of (fst (finalize_upload (receive init_state
       [chunk ''audio'' 0 3 ''aa'', chunk ''audio'' 2 3 ''cc'']) alice fin))) (''audio'', 0) = None
   \<and> missing_indexes (dir_of (receive init_state [chunk ''audio'' 0 3 ''aa''])) ''audio'' = [1, 2]
   \<and> missing_indexes (dir_of (receive init_state
         [chunk ''audio'' 1 3 ''bb'', chunk ''audio'' 0 3 ''aa''])) ''audio'' = [2]
   \<and> snd (finalize_upload (receive init_state [chunk ''audio'' 0 3 ''aa'']) alice fin)
        = (400, IncompleteUpload ''audio'' (Some 1) (Some 3))
   \<and> snd (finalize_upload (receive init_state
         [chunk ''audio'' 1 3 ''bb'', chunk ''audio'' 0 3 ''aa'']) alice fin)
        = (400, IncompleteUpload ''audio'' (Some 1) (Some 3))"
  by (simp add: eval_upload upt_rec)

text \<open>When every chunk of the index list is present, the loop writes the chunks
  in the order of the list, removes their files and runs to its end.\<close>

lemma assemble_all_present:
  "distinct is \<Longrightarrow> map (\<lambda>i. cs (ft, i)) is = map Some ds \<Longrightarrow>
   assemble ft is cs acc =
     (\<lambda>k. if k \<in> Pair ft ` set is then None else cs k, acc @ concat ds, True)"
proof (induction "is" arbitrary: cs acc ds)
  case Nil
  then show ?case by simp
next
  case (Cons i "is")
  from Cons.prems(2) obtain chunkData ds' where ds: "ds = chunkData # ds'"
    and c: "cs (ft, i) = Some chunkData"
    and rest: "map (\<lambda>j. cs (ft, j)) is = map Some ds'"
    by (cases ds) auto
  let ?cs = "cs((ft, i) := None)"
  from Cons.prems(1) have d: "distinct is" and ni: "i \<notin> set is" by auto
  from ni have "map (\<lambda>j. ?cs (ft, j)) is = map (\<lambda>j. cs (ft, j)) is"
    by (intro map_cong) auto
  with rest have "map (\<lambda>j. ?cs (ft, j)) is = map Some ds'"
    by simp
  with d have "assemble ft is ?cs (acc @ chunkData) =
     (\<lambda>k. if k \<in> Pair ft ` set is then None else ?cs k, (acc @ chunkData) @ concat ds', True)"
    by (rule Cons.IH)
  moreover have "(\<lambda>k. if k \<in> Pair ft ` set is then None else ?cs k)
               = (\<lambda>k. if k \<in> Pair ft ` set (i # is) then None else cs k)"
    by auto
  ultimately show ?case using c ds by simp
qed

text \<open>
  C2 at a concrete input. The two chunks of a stream received in the order
  1, 0 are both stored and no index is missing, yet finalisation is refused
  with "Incomplete upload ... Received 1/2" and assembles nothing:
  \<open>uploadedChunks\<close> holds the index of the last chunk plus one, not the number
  of chunks received. The same chunks received in index order pass that check
  and are assembled to \<open>aabb\<close> (after which the handler fails at
  \<^verbatim>\<open>evidence.save()\<close> and answers 500). So the outcome of finalisation depends on
  the order of arrival.
\<close>

theorem finalize_out_of_order:
  "chunks (dir_of (receive init_state
         [chunk ''audio'' 1 2 ''bb'', chunk ''audio'' 0 2 ''aa''])) (''audio'', 0) = Some ''aa''
   \<and> chunks (dir_of (receive init_state
         [chunk ''audio'' 1 2 ''bb'', chunk ''audio'' 0 2 ''aa''])) (''audio'', 1) = Some ''bb''
   \<and> missing_indexes (dir_of (receive init_state
         [chunk ''audio'' 1 2 ''bb'', chunk ''audio'' 0 2 ''aa''])) ''audio'' = []
   \<and> snd (finalize_upload (receive init_state
         [chunk ''audio'' 1 2 ''bb'', chunk ''audio'' 0 2 ''aa'']) alice fin)
        = (400, IncompleteUpload ''audio'' (Some 1) (Some 2))
   \<and> finals (dir_of (fst (finalize_upload (receive init_state
         [chunk ''audio'' 1 2 ''bb'', chunk ''audio'' 0 2 ''aa'']) alice fin))) ''audio'' = None
   \<and> snd (finalize_upload (receive init_state
         [chunk ''audio'' 0 2 ''aa'', chunk ''audio'' 1 2 ''bb'']) alice fin)
        = (500, Error ''Failed to finalize upload'')
   \<and> finals (dir_of (fst (finalize_upload (receive init_state
         [chunk ''audio'' 0 2 ''aa'', chunk ''audio'' 1 2 ''bb'']) alice fin))) ''audio''
        = Some ''aabb''"
  by (simp add: eval_upload upt_rec)

section \<open>No record is ever removed\<close>

lemma grows_refl: "grows e e"
  by (simp add: grows_def)

lemma kept_refl: "kept es es"
  by (simp add: kept_def list_all2_same grows_refl)

lemma kept_append: "kept es (es @ new)"
  by (simp add: kept_def list_all2_same grows_refl)

lemma push_shares_length: "length (push_shares i uid recs es) = length es"
  by (induction es) auto

lemma push_shares_grows: "list_all2 grows es (push_shares i uid recs es)"
  by (induction es) (auto simp: grows_def list_all2_same)

lemma kept_push_shares: "kept es (push_shares i uid recs es)"
  by (simp add: kept_def push_shares_length push_shares_grows)

lemma grows_trans: "grows a b \<Longrightarrow> grows b c \<Longrightarrow> grows a c"
  by (auto simp: grows_def)

lemma kept_trans:
  assumes "kept xs ys" "kept ys zs"
  shows "kept xs zs"
proof -
  from assms have l: "length xs \<le> length ys" "length ys \<le> length zs"
    and a: "list_all2 grows xs (take (length xs) ys)"
    and b: "list_all2 grows ys (take (length ys) zs)"
    by (auto simp: kept_def)
  from b have "list_all2 grows (take (length xs) ys) (take (length xs) (take (length ys) zs))"
    by (rule list_all2_takeI)
  with l have "list_all2 grows (take (length xs) ys) (take (length xs) zs)"
    by (simp add: min_def)
  with a have "list_all2 grows xs (take (length xs) zs)"
    by (rule list_all2_trans [rotated 1]) (rule grows_trans)
  with l show ?thesis by (simp add: kept_def)
qed

lemma upsert_event_ids:
  "upsert_event fresh rid uid ts st evid es = (es', i) \<Longrightarrow> prefix (map se_id es) (map se_id es')"
  by (induction es arbitrary: es' i) (auto split: prod.splits if_splits)

lemma finalize_upload_evidence:
  "kept (evidence s) (evidence (fst (finalize_upload s c r)))"
  by (simp add: finalize_upload_stores_nothing kept_refl)

lemma finalize_upload_events:
  "prefix (map se_id (sos_events s)) (map se_id (sos_events (fst (finalize_upload s c r))))"
  by (simp add: finalize_upload_stores_nothing)

text \<open>One request, whatever it is, keeps every evidence record and every event.\<close>

lemma handle_evidence:
  "kept (evidence s) (evidence (fst (handle b ext now s c req)))"
proof (cases req)
  case (UploadChunk r)
  then show ?thesis
    by (auto simp: handle_def upload_chunk_def authenticateToken_def Let_def kept_refl
             split: sum.splits caller.splits option.splits if_splits)
next
  case (FinalizeUpload r)
  then show ?thesis by (simp add: handle_def finalize_upload_evidence)
next
  case (UploadEvidence r)
  then show ?thesis
    by (auto simp: handle_def upload_evidence_def authenticateToken_def Let_def kept_refl kept_append
             split: sum.splits caller.splits prod.splits option.splits)
next
  case (ShareEvidence i sw)
  then show ?thesis
    by (auto simp: handle_def share_evidence_def authenticateToken_def Let_def kept_refl
               kept_push_shares
             split: sum.splits caller.splits option.splits)
qed (auto simp: handle_def get_evidence_def list_events_def get_event_def delete_event_def
       user_all_def get_sos_evidence_def get_file_def respond_def authenticateToken_def Let_def
       kept_refl
       split: sum.splits caller.splits option.splits)

lemma handle_events:
  "prefix (map se_id (sos_events s)) (map se_id (sos_events (fst (handle b ext now s c req))))"
proof (cases req)
  case (FinalizeUpload r)
  then show ?thesis by (simp add: handle_def finalize_upload_events)
qed (auto simp: handle_def upload_chunk_def upload_evidence_def share_evidence_def
       get_evidence_def list_events_def get_event_def delete_event_def
       user_all_def get_sos_evidence_def get_file_def respond_def authenticateToken_def Let_def
       split: sum.splits caller.splits option.splits prod.splits)

lemma run_evidence:
  "kept (evidence s) (evidence (run b ext now s reqs))"
proof (induction reqs arbitrary: s)
  case Nil
  show ?case by (simp add: kept_refl)
next
  case (Cons a reqs)
  obtain c req where a: "a = (c, req)" by (cases a)
  show ?case
    unfolding a run.simps
    by (rule kept_trans [OF handle_evidence Cons.IH])
qed

lemma run_events:
  "prefix (map se_id (sos_events s)) (map se_id (sos_events (run b ext now s reqs)))"
proof (induction reqs arbitrary: s)
  case Nil
  show ?case by simp
next
  case (Cons a reqs)
  obtain c req where a: "a = (c, req)" by (cases a)
  show ?case
    unfolding a run.simps
    by (rule prefix_order.trans [OF handle_events Cons.IH])
qed

text \<open>
  C8. A request to delete an SOS event is refused whoever sends it: 401 without
  a token, 403 with an invalid one, 403 "Access denied" for every authenticated
  user; the state is returned unchanged. A \<open>DELETE\<close> on any other path of the
  router has no route (404). Along every sequence of requests, with either
  binding of the model, every evidence record and every SOS event stays in its
  collection, and the deferred removal of an upload directory touches neither.
\<close>

theorem deletion_rejected:
  "delete_event s c eventId =
     (s, case c of NoToken \<Rightarrow> (401, Error ''Access token required'')
          | InvalidToken \<Rightarrow> (403, Error ''Invalid or expired token'')
          | Authenticated u \<Rightarrow> (403, Error ''Access denied''))
   \<and> handle b ext now s c (DeleteUnrouted path) = (s, (404, Error (''Cannot DELETE '' @ path)))
   \<and> kept (evidence s) (evidence (run b ext now s reqs))
   \<and> prefix (map se_id (sos_events s)) (map se_id (sos_events (run b ext now s reqs)))
   \<and> evidence (cleanup_timer s uploadId) = evidence s
   \<and> sos_events (cleanup_timer s uploadId) = sos_events s"
  by (cases c)
     (simp_all add: delete_event_def authenticateToken_def handle_def run_evidence run_events
        cleanup_timer_def)

theorem deletion_rejected_witness:
  "delete_event stored bob 0 = (stored, (403, Error ''Access denied''))
   \<and> delete_event stored alice 0 = (stored, (403, Error ''Access denied''))
   \<and> kept (evidence stored)
        (evidence (run part_004_SOSEvidence toy 5 stored
           [(alice, DeleteEvent 0), (bob, DeleteUnrouted ''/0''),
            (alice, ShareEvidence 0 (Some [''police'']))]))
   \<and> map ev_id (evidence (run part_004_SOSEvidence toy 5 stored
           [(alice, DeleteEvent 0), (bob, DeleteUnrouted ''/0''),
            (alice, ShareEvidence 0 (Some [''police'']))])) = [0]"
  using deletion_rejected [of stored bob 0 part_004_SOSEvidence toy 5 "''/0''"
          "[(alice, DeleteEvent 0), (bob, DeleteUnrouted ''/0''),
            (alice, ShareEvidence 0 (Some [''police'']))]" "''up1''"]
        deletion_rejected [of stored alice 0 part_004_SOSEvidence toy 5 "''/0''" "[]" "''up1''"]
  by (simp add: alice_def bob_def stored_def init_state_def alice_doc_def handle_def
        delete_event_def share_evidence_def authenticateToken_def part_004_SOSEvidence_def Let_def
        schema_valid_def valid_file_def sos_types_def file_types_def share_types_def)


section \<open>The tamper-protection hash\<close>

lemma process_files_hashes:
  "process_files ext docId k fs = (ufs, hs) \<Longrightarrow> hs = map (\<lambda>f. sha256 ext (uf_content f)) fs"
  by (induction fs arbitrary: k ufs hs) (auto split: prod.splits)

lemma multer_array_status:
  "multer_array b k fs = Some rep \<Longrightarrow> fst rep = 500"
  by (induction fs arbitrary: k) (auto split: if_splits)

lemmas eval_evidence =
  upload_evidence_def bob_def toy_def upload_av_def upload_va_def audio_file_def video_file_def
  part_004_SOSEvidence_def evidenceRoutes_SOSEvidence_def getEvidenceType_def
  spec_combinedHash_def stream_rank_def fileFilter_def file_size_limit_def allowedTypes_def
  valid_file_def sos_types_def file_types_def share_types_def

text \<open>
  C4, as the source has it. When \<^verbatim>\<open>POST /upload\<close> answers 200 it has appended
  exactly one record, and the hash of that record is the SHA-256 of the
  concatenation of the hex SHA-256 digests of the uploaded files, taken in the
  order of the files in the request; with any other answer the collection is
  as it was. The statement holds for every hash function and for either
  binding of the model.
\<close>

theorem upload_evidence_hash:
  "(fst (snd (upload_evidence b ext now s c r)) = 200 \<longrightarrow>
      (\<exists>doc. evidence (fst (upload_evidence b ext now s c r)) = evidence s @ [doc]
          \<and> ev_hash doc
              = Some (sha256 ext (concat (map (\<lambda>f. sha256 ext (uf_content f)) (ur_files r))))))
   \<and> (fst (snd (upload_evidence b ext now s c r)) \<noteq> 200 \<longrightarrow>
      evidence (fst (upload_evidence b ext now s c r)) = evidence s)"
proof -
  obtain fs hs where p: "process_files ext (next_id s) 0 (ur_files r) = (fs, hs)"
    by (cases "process_files ext (next_id s) 0 (ur_files r)")
  then have "hs = map (\<lambda>f. sha256 ext (uf_content f)) (ur_files r)"
    by (rule process_files_hashes)
  with p show ?thesis
    by (cases c; cases "multer_array b 0 (ur_files r)")
       (auto simp: upload_evidence_def authenticateToken_def Let_def dest: multer_array_status)
qed

theorem upload_evidence_hash_witness:
  "fst (snd (upload_evidence part_004_SOSEvidence toy 5 init_state alice upload_av)) = 200
   \<and> map ev_hash (evidence (fst (upload_evidence part_004_SOSEvidence toy 5 init_state alice
         upload_av)))
     = [Some (sha256 toy (concat (map (\<lambda>f. sha256 toy (uf_content f)) (ur_files upload_av))))]
   \<and> fst (snd (upload_evidence evidenceRoutes_SOSEvidence toy 5 init_state alice upload_av)) \<noteq> 200
   \<and> evidence (fst (upload_evidence evidenceRoutes_SOSEvidence toy 5 init_state alice upload_av))
     = []"
  using upload_evidence_hash [where b = part_004_SOSEvidence and ext = toy and now = 5
           and s = init_state and c = alice and r = upload_av]
        upload_evidence_hash [where b = evidenceRoutes_SOSEvidence and ext = toy and now = 5
           and s = init_state and c = alice and r = upload_av]
  by (simp add: eval_evidence authenticateToken_def alice_def init_state_def schema_valid_def
        Let_def)

text \<open>
  C4, as the claim states it, fails. With the model declared, \<^verbatim>\<open>/upload\<close> of an
  audio file followed by a video file hashes the audio digest first, where the
  canonical order of the stream types puts the video first; the same two files
  sent in the other order give another hash. (The stand-in hash is the
  identity, so the hashes shown are the messages hashed.)
\<close>

theorem upload_hash_order_counterexample:
  "map ev_hash (evidence (fst (upload_evidence part_004_SOSEvidence toy 5 init_state alice
         upload_av)))
     = [Some ''AUDIOVIDEO'']
   \<and> map (\<lambda>e. spec_combinedHash toy (ev_evidenceFiles e))
        (evidence (fst (upload_evidence part_004_SOSEvidence toy 5 init_state alice upload_av)))
     = [''VIDEOAUDIO'']
   \<and> map ev_hash (evidence (fst (upload_evidence part_004_SOSEvidence toy 5 init_state alice
         upload_va)))
     = [Some ''VIDEOAUDIO'']"
  by (simp add: eval_evidence authenticateToken_def alice_def init_state_def schema_valid_def
        Let_def)

section \<open>What a guardian response changes\<close>

text \<open>
  C5, as the source has it. The handler records nothing and settles nothing:
  for every request it returns the state it was given and answers 200 with the
  response echoed back, whether the action is \<open>ACCEPTED\<close> or not.
\<close>

theorem respond_records_nothing:
  "respond now s guardianId r =
     (s, (200, RespondAck \<lparr>gr_guardianId = guardianId, gr_sosEventId = rq_sosEventId r,
                           gr_action = rq_action r, gr_reason = rq_reason r,
                           gr_respondedAt = now\<rparr>))"
  by (simp add: respond_def Let_def)

theorem respond_records_nothing_witness:
  "respond 2000 open_incident ''g1'' accept =
     (open_incident, (200, RespondAck \<lparr>gr_guardianId = ''g1'', gr_sosEventId = 7,
                           gr_action = ''ACCEPTED'', gr_reason = ''on my way'',
                           gr_respondedAt = 2000\<rparr>))"
  using respond_records_nothing [of 2000 open_incident "''g1''" accept]
  by (simp add: accept_def)

text \<open>
  C5, as the claim states it, fails. Incident 7 is \<open>active\<close>; a guardian accepts
  and is answered 200, and the incident is still \<open>active\<close>, not resolved; after
  a second guardian has accepted too, the incident holds no response at all,
  historical or authoritative.
\<close>

theorem first_accept_counterexample:
  "incident_status open_incident 7 = Some ''active''
   \<and> fst (snd (handle evidenceRoutes_SOSEvidence toy 2000 open_incident NoToken
                 (Respond ''g1'' accept))) = 200
   \<and> incident_status (run evidenceRoutes_SOSEvidence toy 2000 open_incident
         [(NoToken, Respond ''g1'' accept)]) 7 = Some ''active''
   \<and> incident_responses (run evidenceRoutes_SOSEvidence toy 2000 open_incident
         [(NoToken, Respond ''g1'' accept), (NoToken, Respond ''g2'' accept)]) 7 = []"
  by (simp add: handle_def respond_def open_incident_def init_state_def accept_def
        incident_status_def incident_responses_def Let_def)

section \<open>Sharing\<close>

text \<open>In \<^verbatim>\<open>src/routes/evidenceRoutes.js\<close> every share request of an authenticated
  caller ends in the \<^verbatim>\<open>catch\<close> block.\<close>

lemma share_evidence_undeclared_model:
  "share_evidence evidenceRoutes_SOSEvidence now s (Authenticated u) evidenceId shareWith
     = (s, (500, Error ''Server error''))"
  by (simp add: share_evidence_def authenticateToken_def evidenceRoutes_SOSEvidence_def)

text \<open>With the model declared, as in \<^verbatim>\<open>src/unnamed/part_004\<close>, an id that matches no
  record of the caller is answered 404.\<close>

lemma share_evidence_declared_unknown:
  "find (\<lambda>e. ev_id e = evidenceId \<and> ev_userId e = u) (evidence s) = None \<Longrightarrow>
   share_evidence part_004_SOSEvidence now s (Authenticated u) evidenceId shareWith
     = (s, (404, Error ''Evidence not found''))"
  by (simp add: share_evidence_def authenticateToken_def part_004_SOSEvidence_def)

text \<open>
  C7 at a concrete input. The collection holds one record, id 0, of \<open>alice\<close>.
  The router of \<^verbatim>\<open>evidenceRoutes.js\<close> answers 500 "Server error" both to a share
  of the unknown id 99 and to a share of record 0, and appends nothing. The
  same handler with the model declared answers 404 for id 99 and, for record
  0, appends the \<open>police\<close> entry to \<open>sharedWith\<close>.
\<close>

theorem share_evidence_at_failing_input:
  "share_evidence evidenceRoutes_SOSEvidence 5 stored alice 99 (Some [''police''])
     = (stored, (500, Error ''Server error''))
   \<and> share_evidence part_004_SOSEvidence 5 stored alice 99 (Some [''police''])
     = (stored, (404, Error ''Evidence not found''))
   \<and> share_evidence evidenceRoutes_SOSEvidence 5 stored alice 0 (Some [''police''])
     = (stored, (500, Error ''Server error''))
   \<and> snd (share_evidence part_004_SOSEvidence 5 stored alice 0 (Some [''police'']))
     = (200, ShareAck [\<lparr>sr_type = ''police'', sr_sharedAt = 5\<rparr>])
   \<and> map ev_sharedWith (evidence (fst (share_evidence part_004_SOSEvidence 5 stored alice 0
         (Some [''police'']))))
     = [[\<lparr>sr_type = ''police'', sr_sharedAt = 5\<rparr>]]"
  by (simp add: share_evidence_def authenticateToken_def part_004_SOSEvidence_def
        evidenceRoutes_SOSEvidence_def alice_def stored_def init_state_def alice_doc_def Let_def
        schema_valid_def valid_file_def sos_types_def file_types_def share_types_def)


section \<open>What the nearby query returns\<close>

lemma nearby_query_set:
  "set (nearby_query g now lat lng r users) \<subseteq> set (filter (matches g now (lng, lat) r) users)"
  unfolding nearby_query_def by (rule order_trans [OF set_take_subset]) simp

lemma nearby_query_small:
  assumes "length (filter (matches g now (lng, lat) r) users) \<le> 20"
  shows "length (nearby_query g now lat lng r users)
           = length (filter (matches g now (lng, lat) r) users)"
    and "set (nearby_query g now lat lng r users) = set (filter (matches g now (lng, lat) r) users)"
  using assms unfolding nearby_query_def by simp_all

lemmas eval_nearby =
  nearby_def nearby_query_def volunteer_authenticateToken_def matches_def
  day_ms_def flat_def fresh_volunteer_def stale_volunteer_def volunteer_view_of_def Let_def

text \<open>
  C9. For an authenticated caller the query answers 200 with the volunteers
  found and their number. No user whose last activity lies more than 24 hours
  before the time of the query is among them, and every entry of the reply was
  active within those 24 hours. At most 20 volunteers are returned (the
  maximum is fixed in the source); when at most 20 users match, all of them are
  returned, and the answer is still 200.
\<close>

theorem nearby_excludes_stale:
  "nearby g now users (Authenticated u) lat lng r =
     (200, Volunteers (length (nearby_query g now lat lng r users))
             (map (volunteer_view_of g lat lng) (nearby_query g now lat lng r users)))
   \<and> (\<forall>v \<in> set users. \<forall>t. u_volunteerLastActive v = Some t \<and> t < now - day_ms
         \<longrightarrow> v \<notin> set (nearby_query g now lat lng r users))
   \<and> (\<forall>w \<in> set (map (volunteer_view_of g lat lng) (nearby_query g now lat lng r users)).
         now - day_ms \<le> vv_lastActive w)
   \<and> length (nearby_query g now lat lng r users) \<le> 20
   \<and> (length (filter (matches g now (lng, lat) r) users) \<le> 20 \<longrightarrow>
        length (nearby_query g now lat lng r users)
          = length (filter (matches g now (lng, lat) r) users)
        \<and> set (nearby_query g now lat lng r users)
          = set (filter (matches g now (lng, lat) r) users))"
proof (intro conjI)
  show "nearby g now users (Authenticated u) lat lng r =
     (200, Volunteers (length (nearby_query g now lat lng r users))
             (map (volunteer_view_of g lat lng) (nearby_query g now lat lng r users)))"
    by (simp add: nearby_def volunteer_authenticateToken_def Let_def)
next
  show "\<forall>v \<in> set users. \<forall>t. u_volunteerLastActive v = Some t \<and> t < now - day_ms
         \<longrightarrow> v \<notin> set (nearby_query g now lat lng r users)"
    using nearby_query_set [of g now lat lng r users]
    by (auto simp: matches_def)
next
  show "\<forall>w \<in> set (map (volunteer_view_of g lat lng) (nearby_query g now lat lng r users)).
         now - day_ms \<le> vv_lastActive w"
    using nearby_query_set [of g now lat lng r users]
    by (auto simp: matches_def volunteer_view_of_def Let_def split: option.splits)
next
  show "length (nearby_query g now lat lng r users) \<le> 20"
    by (simp add: nearby_query_def)
next
  show "length (filter (matches g now (lng, lat) r) users) \<le> 20 \<longrightarrow>
        length (nearby_query g now lat lng r users)
          = length (filter (matches g now (lng, lat) r) users)
        \<and> set (nearby_query g now lat lng r users)
          = set (filter (matches g now (lng, lat) r) users)"
    using nearby_query_small [of g now lng lat r users] by blast
qed

theorem nearby_excludes_stale_witness:
  "stale_volunteer \<in> set [fresh_volunteer, stale_volunteer]
   \<and> u_volunteerLastActive stale_volunteer = Some 1000 \<and> 1000 < 100000000 - day_ms
   \<and> length (filter (matches flat 100000000 (0, 0) 10) [fresh_volunteer, stale_volunteer]) \<le> 20
   \<and> nearby_query flat 100000000 0 0 10 [fresh_volunteer, stale_volunteer] = [fresh_volunteer]
   \<and> nearby flat 100000000 [fresh_volunteer, stale_volunteer] (Authenticated ''alice'') 0 0 10
       = (200, Volunteers 1 [\<lparr>vv_id = 1, vv_name = ''Vera'', vv_mobile = ''111'',
            vv_location = (0, 0), vv_lastActive = 90000000, vv_distance = 0\<rparr>])"
  using nearby_excludes_stale
          [of flat 100000000 "[fresh_volunteer, stale_volunteer]" "''alice''" 0 0 10]
  by (simp add: eval_nearby)

section \<open>Who may read evidence\<close>

text \<open>
  C10, as the source has it. Evidence data reaches an authenticated requester
  only from records that carry the requester's id.
  \<^item> \<^verbatim>\<open>GET /:recordingId\<close>: an answer 200 carries the data of a stored record of
    the requester; when the record the lookup yields belongs to another user
    the answer is 403, when it yields none 404; an answer other than 200
    carries an error message only.
  \<^item> \<^verbatim>\<open>GET /sos/:sosId\<close>: with the model declared the answer is 200 with
    exactly the requester's own records of that SOS, newest first (the query
    filters by owner, it does not refuse); in \<^verbatim>\<open>evidenceRoutes.js\<close> the answer is
    the error 500.
  \<^item> \<^verbatim>\<open>GET /file/:token\<close>: an answer 200 returns MIME type, name and data of a
    file of one of the requester's own records; with the model declared, a
    token that belongs to no record of the requester is answered 404; in
    \<^verbatim>\<open>evidenceRoutes.js\<close> the answer is the error 500.
\<close>

theorem retrieval_owner_only:
  "(fst (snd (get_evidence ext s (Authenticated u) rid)) = 200 \<longrightarrow>
      (\<exists>e \<in> set (evidence s). ev_userId e = u
          \<and> get_evidence ext s (Authenticated u) rid = (s, (200, EvidenceMeta (ev_timestamp e)))))
   \<and> (fst (snd (get_evidence ext s (Authenticated u) rid)) \<noteq> 200 \<longrightarrow>
        (\<exists>msg. snd (snd (get_evidence ext s (Authenticated u) rid)) = Error msg))
   \<and> (find_by_recordingId ext rid (evidence s) = Some e \<and> ev_userId e \<noteq> u \<longrightarrow>
        get_evidence ext s (Authenticated u) rid
          = (s, (403, Error ''Access denied - not your evidence'')))
   \<and> (find_by_recordingId ext rid (evidence s) = None \<longrightarrow>
        get_evidence ext s (Authenticated u) rid = (s, (404, Error ''Evidence not found'')))
   \<and> get_sos_evidence b s (Authenticated u) sosId
        = (s, if b then (200, EvidenceList
                      (rev (filter (\<lambda>e. ev_sosId e = Some sosId \<and> ev_userId e = u) (evidence s))))
              else (500, Error ''Server error''))
   \<and> (snd (get_file b s (Authenticated u) tok) = (200, FileBody m n data) \<longrightarrow>
        (\<exists>e \<in> set (evidence s). ev_userId e = u \<and>
           (\<exists>f \<in> set (ev_evidenceFiles e).
               ef_secureUrl f = ''/api/evidence/file/'' @ tok
               \<and> ef_mimeType f = m \<and> ef_filename f = n \<and> ef_data f = data)))
   \<and> (b \<and> (\<forall>e \<in> set (evidence s). ev_userId e = u \<longrightarrow>
               (''/api/evidence/file/'' @ tok) \<notin> set (map ef_secureUrl (ev_evidenceFiles e))) \<longrightarrow>
        get_file b s (Authenticated u) tok = (s, (404, Error ''File not found'')))
   \<and> (\<not> b \<longrightarrow> get_file b s (Authenticated u) tok = (s, (500, Error ''Server error'')))"
proof (intro conjI impI)
  assume "fst (snd (get_evidence ext s (Authenticated u) rid)) = 200"
  then show "\<exists>e \<in> set (evidence s). ev_userId e = u
          \<and> get_evidence ext s (Authenticated u) rid = (s, (200, EvidenceMeta (ev_timestamp e)))"
    by (cases "evidence s")
       (auto simp: get_evidence_def authenticateToken_def find_by_recordingId_def
             split: option.splits if_splits)
next
  assume "fst (snd (get_evidence ext s (Authenticated u) rid)) \<noteq> 200"
  then show "\<exists>msg. snd (snd (get_evidence ext s (Authenticated u) rid)) = Error msg"
    by (auto simp: get_evidence_def authenticateToken_def split: option.splits if_splits)
next
  assume "find_by_recordingId ext rid (evidence s) = Some e \<and> ev_userId e \<noteq> u"
  then show "get_evidence ext s (Authenticated u) rid
               = (s, (403, Error ''Access denied - not your evidence''))"
    by (simp add: get_evidence_def authenticateToken_def)
next
  assume "find_by_recordingId ext rid (evidence s) = None"
  then show "get_evidence ext s (Authenticated u) rid = (s, (404, Error ''Evidence not found''))"
    by (simp add: get_evidence_def authenticateToken_def)
next
  show "get_sos_evidence b s (Authenticated u) sosId
        = (s, if b then (200, EvidenceList
                      (rev (filter (\<lambda>e. ev_sosId e = Some sosId \<and> ev_userId e = u) (evidence s))))
              else (500, Error ''Server error''))"
    by (simp add: get_sos_evidence_def authenticateToken_def)
next
  assume "snd (get_file b s (Authenticated u) tok) = (200, FileBody m n data)"
  then show "\<exists>e \<in> set (evidence s). ev_userId e = u \<and>
           (\<exists>f \<in> set (ev_evidenceFiles e).
               ef_secureUrl f = ''/api/evidence/file/'' @ tok
               \<and> ef_mimeType f = m \<and> ef_filename f = n \<and> ef_data f = data)"
    by (auto simp: get_file_def authenticateToken_def find_Some_iff
             split: option.splits if_splits) (metis nth_mem)
next
  assume a: "b \<and> (\<forall>e \<in> set (evidence s). ev_userId e = u \<longrightarrow>
               (''/api/evidence/file/'' @ tok) \<notin> set (map ef_secureUrl (ev_evidenceFiles e)))"
  then have "find (\<lambda>e. (''/api/evidence/file/'' @ tok) \<in> set (map ef_secureUrl (ev_evidenceFiles e))
                            \<and> ev_userId e = u) (evidence s) = None"
    by (auto simp: find_None_iff)
  with a show "get_file b s (Authenticated u) tok = (s, (404, Error ''File not found''))"
    by (simp add: get_file_def authenticateToken_def)
next
  assume "\<not> b"
  then show "get_file b s (Authenticated u) tok = (s, (500, Error ''Server error''))"
    by (simp add: get_file_def authenticateToken_def)
qed

lemmas eval_read =
  get_evidence_def get_sos_evidence_def get_file_def authenticateToken_def stored_def
  alice_doc_def init_state_def toy_def toy_loose_def part_004_SOSEvidence_def
  evidenceRoutes_SOSEvidence_def find_by_recordingId_def

theorem retrieval_owner_only_witness:
  "get_evidence toy stored (Authenticated ''alice'') ''rec1''
     = (stored, (200, EvidenceMeta 1000))
   \<and> get_evidence toy stored (Authenticated ''bob'') ''rec1''
     = (stored, (403, Error ''Access denied - not your evidence''))
   \<and> get_evidence toy_loose stored (Authenticated ''alice'') ''rec1''
     = (stored, (404, Error ''Evidence not found''))
   \<and> get_sos_evidence part_004_SOSEvidence stored (Authenticated ''alice'') ''sos1''
     = (stored, (200, EvidenceList [alice_doc]))
   \<and> get_sos_evidence part_004_SOSEvidence stored (Authenticated ''bob'') ''sos1''
     = (stored, (200, EvidenceList []))
   \<and> snd (get_file part_004_SOSEvidence stored (Authenticated ''alice'') ''a'')
     = (200, FileBody ''audio/wav'' ''a.wav'' ''AUDIO'')
   \<and> get_file part_004_SOSEvidence stored (Authenticated ''bob'') ''a''
     = (stored, (404, Error ''File not found''))
   \<and> get_file evidenceRoutes_SOSEvidence stored (Authenticated ''alice'') ''a''
     = (stored, (500, Error ''Server error''))"
  using retrieval_owner_only [of toy stored "''alice''" "''rec1''" alice_doc part_004_SOSEvidence
           "''sos1''" "''a''" "''audio/wav''" "''a.wav''" "''AUDIO''"]
        retrieval_owner_only [of toy stored "''bob''" "''rec1''" alice_doc part_004_SOSEvidence
           "''sos1''" "''a''" "''audio/wav''" "''a.wav''" "''AUDIO''"]
        retrieval_owner_only [of toy_loose stored "''alice''" "''rec1''" alice_doc
           evidenceRoutes_SOSEvidence "''sos1''" "''a''" "''audio/wav''" "''a.wav''" "''AUDIO''"]
  by (simp add: eval_read)

text \<open>
  C10, as the claim states it, fails. The only record belongs to \<open>alice\<close> and to
  SOS \<open>sos1\<close>. When \<open>bob\<close> lists the evidence of \<open>sos1\<close>, the handler with
  the model declared answers 200 with an empty list, and the router of
  \<^verbatim>\<open>evidenceRoutes.js\<close> answers 500, as it does to his file download: none of
  these is a 403 or a 404.
\<close>

theorem list_by_sos_counterexample:
  "map ev_userId (evidence stored) = [''alice'']
   \<and> map ev_sosId (evidence stored) = [Some ''sos1'']
   \<and> snd (get_sos_evidence part_004_SOSEvidence stored bob ''sos1'') = (200, EvidenceList [])
   \<and> snd (get_sos_evidence evidenceRoutes_SOSEvidence stored bob ''sos1'')
       = (500, Error ''Server error'')
   \<and> snd (get_file evidenceRoutes_SOSEvidence stored bob ''a'') = (500, Error ''Server error'')"
  by (simp add: eval_read bob_def)

end
